theory Spec2Isabelle
  imports Complex_Main "HOL-Library.AList"
begin

section \<open>Errors\<close>

text \<open>
  The JavaScript exceptions the modelled code can raise. A method call or a property
  read on \<^verbatim>\<open>undefined\<close> or \<^verbatim>\<open>null\<close> throws a \<^verbatim>\<open>TypeError\<close>; the abstract
  methods of \<^verbatim>\<open>ASTNode\<close> and \<^verbatim>\<open>NonTerminal\<close> throw \<^verbatim>\<open>NotImplementedError\<close>.
\<close>

datatype error = TypeError | NotImplementedError

section \<open>The AST automaton (\<^verbatim>\<open>ASTNode\<close>, \<^verbatim>\<open>Terminal\<close>, \<^verbatim>\<open>NonTerminal\<close>, \<^verbatim>\<open>Sequence\<close>, \<^verbatim>\<open>Choice\<close>)\<close>

text \<open>
  A node object is its fields. \<^verbatim>\<open>_current\<close> and \<^verbatim>\<open>_next\<close> are the fields of \<^verbatim>\<open>ASTNode\<close>;
  a \<^verbatim>\<open>NonTerminal\<close> adds \<^verbatim>\<open>_currentNode\<close>; a \<^verbatim>\<open>Sequence\<close> adds \<^verbatim>\<open>_currentNodeIndex\<close> and
  \<^verbatim>\<open>_seq\<close>; a \<^verbatim>\<open>Choice\<close> adds \<^verbatim>\<open>_choices\<close>, \<^verbatim>\<open>_pdf\<close> and \<^verbatim>\<open>_cdf\<close>.

  \<^verbatim>\<open>_currentNode\<close> is a reference to one of the node's own children (an element of
  \<^verbatim>\<open>_seq\<close> or of \<^verbatim>\<open>_choices\<close>) or \<^verbatim>\<open>undefined\<close>: it is kept as the position of that
  child in the child list, \<open>None\<close> for \<^verbatim>\<open>undefined\<close>, and a child mutated through the
  reference is written back at that position. The children of a node are taken to be
  distinct objects (a tree). JavaScript numbers (weights, cumulative weights, random
  draws) are exact rationals here. \<^verbatim>\<open>Choice\<close> is modelled with its default choice
  function \<^verbatim>\<open>choose\<close>.
\<close>

datatype 's ast =
  Terminal (current: 's) (next': 's)
| Sequence (current: 's) (next': 's) (currentNode: "nat option")
    (currentNodeIndex: nat) (seq: "'s ast list")
| Choice (current: 's) (next': 's) (currentNode: "nat option")
    (choices: "'s ast list") (pdf: "rat list") (cdf: "rat list")

text \<open>\<^verbatim>\<open>new Terminal(step)\<close>: \<^verbatim>\<open>super(step)\<close> sets both \<^verbatim>\<open>_current\<close> and \<^verbatim>\<open>_next\<close>.\<close>

definition new_Terminal :: "'s \<Rightarrow> 's ast" where
  "new_Terminal step = Terminal step step"

text \<open>
  \<^verbatim>\<open>xs[i]\<close> on a JavaScript array: \<^verbatim>\<open>undefined\<close> out of range.
\<close>

definition js_index :: "'a list \<Rightarrow> nat \<Rightarrow> 'a option" where
  "js_index xs i = (if i < length xs then Some (xs ! i) else None)"

text \<open>
  \<^verbatim>\<open>new Sequence(seq)\<close>: \<^verbatim>\<open>super(seq[0])\<close> runs the \<^verbatim>\<open>NonTerminal\<close> constructor, which calls
  \<^verbatim>\<open>currentNode.current()\<close>: a \<^verbatim>\<open>TypeError\<close> when \<^verbatim>\<open>seq[0]\<close> is \<^verbatim>\<open>undefined\<close>. Then
  \<^verbatim>\<open>_currentNode = seq[0]\<close>, \<^verbatim>\<open>_currentNodeIndex = 0\<close>, \<^verbatim>\<open>_seq = seq\<close>.
\<close>

definition new_Sequence :: "'s ast list \<Rightarrow> error + 's ast" where
  "new_Sequence sq =
     (case js_index sq 0 of
        None \<Rightarrow> Inl TypeError
      | Some currentNode0 \<Rightarrow>
          Inr (Sequence (current currentNode0) (current currentNode0) (Some 0) 0 sq))"

text \<open>
  The cumulative distribution of the \<^verbatim>\<open>Choice\<close> constructor:
  \<^verbatim>\<open>let acc = 0; const cdf = pdf.map(p => (acc = p + acc))\<close>.
\<close>

fun cdf_from :: "rat \<Rightarrow> rat list \<Rightarrow> rat list" where
  "cdf_from acc [] = []"
| "cdf_from acc (p # ps) = (p + acc) # cdf_from (p + acc) ps"

definition derive_cdf :: "rat list \<Rightarrow> rat list" where
  "derive_cdf ps = cdf_from 0 ps"

text \<open>
  \<^verbatim>\<open>choose(choices, cdf) = choices[cdf.filter(c => c <= Math.random() * cdf[cdf.length - 1]).length]\<close>

  \<^verbatim>\<open>Math.random()\<close> is called inside the callback, once for every entry of \<^verbatim>\<open>cdf\<close>, in
  index order. The random source is a sequence \<open>rng\<close> of draws in \<open>[0, 1)\<close> and a
  counter \<open>k\<close> of the draws already made: entry \<open>i\<close> is compared with draw \<open>k + i\<close>.
  \<open>choose_pos\<close> is the index computed (the length of the filtered array);
  \<open>choose_fn\<close> returns the child at that index (\<open>None\<close> for \<^verbatim>\<open>undefined\<close>), the
  index, and the counter after the call.
\<close>

fun keep_le :: "(nat \<Rightarrow> rat) \<Rightarrow> nat \<Rightarrow> rat \<Rightarrow> rat list \<Rightarrow> rat list" where
  "keep_le rng k tot [] = []"
| "keep_le rng k tot (c # cs) =
     (if c \<le> rng k * tot then c # keep_le rng (Suc k) tot cs
      else keep_le rng (Suc k) tot cs)"

definition choose_pos :: "(nat \<Rightarrow> rat) \<Rightarrow> nat \<Rightarrow> rat list \<Rightarrow> nat" where
  "choose_pos rng k cs = length (keep_le rng k (last cs) cs)"

definition choose_fn :: "(nat \<Rightarrow> rat) \<Rightarrow> nat \<Rightarrow> 'a list \<Rightarrow> rat list \<Rightarrow> 'a option \<times> nat \<times> nat" where
  "choose_fn rng k chs cs =
     (js_index chs (choose_pos rng k cs), choose_pos rng k cs, k + length cs)"

text \<open>
  \<^verbatim>\<open>new Choice(choices, pdf)\<close>: derives \<^verbatim>\<open>cdf\<close>, then \<^verbatim>\<open>super(choiceFn(choices, cdf))\<close>
  (a \<^verbatim>\<open>TypeError\<close> in the \<^verbatim>\<open>NonTerminal\<close> constructor when the chosen child is
  \<^verbatim>\<open>undefined\<close>), then stores \<^verbatim>\<open>_choices\<close>, \<^verbatim>\<open>_pdf\<close>, \<^verbatim>\<open>_cdf\<close>. Returns the node and
  the random counter.
\<close>

definition new_Choice ::
  "(nat \<Rightarrow> rat) \<Rightarrow> nat \<Rightarrow> 's ast list \<Rightarrow> rat list \<Rightarrow> error + ('s ast \<times> nat)" where
  "new_Choice rng k chs ps =
     (case choose_fn rng k chs (derive_cdf ps) of
        (None, _, _) \<Rightarrow> Inl TypeError
      | (Some currentNode0, j, k') \<Rightarrow>
          Inr (Choice (current currentNode0) (current currentNode0) (Some j)
                 chs ps (derive_cdf ps), k'))"

text \<open>
  \<^verbatim>\<open>advanceCurrentNode()\<close>. \<^verbatim>\<open>Sequence\<close>: the index moves on, wrapping to 0 after the last
  child, and \<^verbatim>\<open>_currentNode = _seq[_currentNodeIndex]\<close>. \<^verbatim>\<open>Choice\<close>: \<^verbatim>\<open>_currentNode\<close> is
  chosen anew and the result is \<^verbatim>\<open>true\<close>. \<^verbatim>\<open>Terminal\<close> has no such method (the abstract
  one of \<^verbatim>\<open>NonTerminal\<close> is not inherited by it either): calling it is a
  \<^verbatim>\<open>TypeError\<close>. The result is the flag, the node and the random counter.
\<close>

fun advanceCurrentNode ::
  "(nat \<Rightarrow> rat) \<Rightarrow> nat \<Rightarrow> 's ast \<Rightarrow> error + (bool \<times> 's ast \<times> nat)" where
  "advanceCurrentNode rng k (Terminal c n) = Inl TypeError"
| "advanceCurrentNode rng k (Sequence c n cn i sq) =
     (if int i = int (length sq) - 1
      then Inr (True, Sequence c n (if 0 < length sq then Some 0 else None) 0 sq, k)
      else Inr (False,
                Sequence c n (if i + 1 < length sq then Some (i + 1) else None) (i + 1) sq, k))"
| "advanceCurrentNode rng k (Choice c n cn chs ps cs) =
     (case choose_fn rng k chs cs of
        (_, j, k') \<Rightarrow>
          Inr (True, Choice c n (if j < length chs then Some j else None) chs ps cs, k'))"

text \<open>
  The children of a node, and the assignment of the fields \<^verbatim>\<open>_current\<close> and \<^verbatim>\<open>_next\<close>.
\<close>

fun children :: "'s ast \<Rightarrow> 's ast list" where
  "children (Terminal c n) = []"
| "children (Sequence c n cn i sq) = sq"
| "children (Choice c n cn chs ps cs) = chs"

fun set_steps :: "'s \<Rightarrow> 's \<Rightarrow> 's ast \<Rightarrow> 's ast" where
  "set_steps c' n' (Terminal c n) = Terminal c' n'"
| "set_steps c' n' (Sequence c n cn i sq) = Sequence c' n' cn i sq"
| "set_steps c' n' (Choice c n cn chs ps cs) = Choice c' n' cn chs ps cs"

text \<open>
  \<^verbatim>\<open>advance()\<close>. \<^verbatim>\<open>Terminal\<close>: \<^verbatim>\<open>true\<close>, nothing changes. \<^verbatim>\<open>NonTerminal\<close>:
  \<^verbatim>\<open>
  let thisHasCycled = false
  if ( this._currentNode.advance() ) thisHasCycled = this.advanceCurrentNode()
  this._current = this._next
  this._next = this._currentNode.next()
  return thisHasCycled
  \<close>
  with a \<^verbatim>\<open>TypeError\<close> where \<^verbatim>\<open>_currentNode\<close> is \<^verbatim>\<open>undefined\<close>.
\<close>

lemma size_nth_less: "j < length xs \<Longrightarrow> f (xs ! j) < size_list f xs"
proof (induction xs arbitrary: j)
  case Nil
  then show ?case by simp
next
  case (Cons a xs)
  show ?case
  proof (cases j)
    case 0
    then show ?thesis by simp
  next
    case (Suc j')
    with Cons.prems have "j' < length xs" by simp
    from Cons.IH[OF this] Suc show ?thesis by simp
  qed
qed

function advance :: "(nat \<Rightarrow> rat) \<Rightarrow> nat \<Rightarrow> 's ast \<Rightarrow> error + (bool \<times> 's ast \<times> nat)" where
  "advance rng k (Terminal c n) = Inr (True, Terminal c n, k)"
| "advance rng k (Sequence c n cn i sq) =
     (case cn of
        None \<Rightarrow> Inl TypeError
      | Some j \<Rightarrow>
          if j < length sq then
            (case advance rng k (sq ! j) of
               Inl e \<Rightarrow> Inl e
             | Inr (childCycled, ch, k1) \<Rightarrow>
                 (case (if childCycled
                        then advanceCurrentNode rng k1 (Sequence c n cn i (sq[j := ch]))
                        else Inr (False, Sequence c n cn i (sq[j := ch]), k1)) of
                    Inl e \<Rightarrow> Inl e
                  | Inr (thisHasCycled, node, k2) \<Rightarrow>
                      (case currentNode node of
                         None \<Rightarrow> Inl TypeError
                       | Some j' \<Rightarrow>
                           (case js_index (children node) j' of
                              None \<Rightarrow> Inl TypeError
                            | Some ch' \<Rightarrow>
                                Inr (thisHasCycled, set_steps n (next' ch') node, k2)))))
          else Inl TypeError)"
| "advance rng k (Choice c n cn chs ps cs) =
     (case cn of
        None \<Rightarrow> Inl TypeError
      | Some j \<Rightarrow>
          if j < length chs then
            (case advance rng k (chs ! j) of
               Inl e \<Rightarrow> Inl e
             | Inr (childCycled, ch, k1) \<Rightarrow>
                 (case (if childCycled
                        then advanceCurrentNode rng k1 (Choice c n cn (chs[j := ch]) ps cs)
                        else Inr (False, Choice c n cn (chs[j := ch]) ps cs, k1)) of
                    Inl e \<Rightarrow> Inl e
                  | Inr (thisHasCycled, node, k2) \<Rightarrow>
                      (case currentNode node of
                         None \<Rightarrow> Inl TypeError
                       | Some j' \<Rightarrow>
                           (case js_index (children node) j' of
                              None \<Rightarrow> Inl TypeError
                            | Some ch' \<Rightarrow>
                                Inr (thisHasCycled, set_steps n (next' ch') node, k2)))))
          else Inl TypeError)"
  by pat_completeness auto

termination
  by (relation "measure (\<lambda>(rng, k, node). size node)")
     (auto intro!: less_SucI size_nth_less)

text \<open>
  Calling \<^verbatim>\<open>advance()\<close> a number of times in a row, collecting the results in call order.
\<close>

fun advance_times ::
  "(nat \<Rightarrow> rat) \<Rightarrow> nat \<Rightarrow> 's ast \<Rightarrow> nat \<Rightarrow> error + (bool list \<times> 's ast \<times> nat)" where
  "advance_times rng k node 0 = Inr ([], node, k)"
| "advance_times rng k node (Suc m) =
     (case advance rng k node of
        Inl e \<Rightarrow> Inl e
      | Inr (b, node1, k1) \<Rightarrow>
          (case advance_times rng k1 node1 m of
             Inl e \<Rightarrow> Inl e
           | Inr (bs, node2, k2) \<Rightarrow> Inr (b # bs, node2, k2)))"



section \<open>The scheduler's timer (\<^verbatim>\<open>Scheduler.start\<close>, \<^verbatim>\<open>stop\<close>, \<^verbatim>\<open>pause\<close>)\<close>

text \<open>
  The part of the \<^verbatim>\<open>Scheduler\<close> object that \<^verbatim>\<open>start\<close>, \<^verbatim>\<open>stop\<close> and \<^verbatim>\<open>pause\<close> read and
  write on the timer: \<^verbatim>\<open>timerFn\<close> (\<open>None\<close> for \<^verbatim>\<open>null\<close>) and \<^verbatim>\<open>lookAheadInterval\<close>, and the
  host's table of interval timers: the active timers (identifier and period) and the
  identifier the next \<^verbatim>\<open>setInterval\<close> returns. The threads and the audio context, which
  \<^verbatim>\<open>stop\<close> and \<^verbatim>\<open>pause\<close> also touch, are left out.
\<close>

record scheduler =
  timerFn :: "nat option"
  lookAheadInterval :: nat
  activeIntervals :: "(nat \<times> nat) list"
  nextIntervalId :: nat

text \<open>The constructor: \<^verbatim>\<open>lookAheadInterval = 100\<close>, \<^verbatim>\<open>timerFn = null\<close>; no timer is running.\<close>

definition new_Scheduler :: scheduler where
  "new_Scheduler =
     \<lparr>timerFn = None, lookAheadInterval = 100, activeIntervals = [], nextIntervalId = 1\<rparr>"

text \<open>
  \<^verbatim>\<open>setInterval(fn, period)\<close> registers a timer and returns its fresh identifier;
  \<^verbatim>\<open>clearInterval(id)\<close> removes the timer with that identifier and does nothing for
  \<^verbatim>\<open>null\<close>.
\<close>

definition setInterval :: "nat \<Rightarrow> scheduler \<Rightarrow> nat \<times> scheduler" where
  "setInterval period s =
     (nextIntervalId s,
      s\<lparr>activeIntervals := activeIntervals s @ [(nextIntervalId s, period)],
        nextIntervalId := Suc (nextIntervalId s)\<rparr>)"

definition clearInterval :: "nat option \<Rightarrow> scheduler \<Rightarrow> scheduler" where
  "clearInterval t s =
     (case t of
        None \<Rightarrow> s
      | Some i \<Rightarrow> s\<lparr>activeIntervals := filter (\<lambda>e. fst e \<noteq> i) (activeIntervals s)\<rparr>)"

text \<open>
  \<^verbatim>\<open>
  start() {
    if (this.timerFn !== null) return
    this.timerFn = setInterval(() => { ... }, this.lookAheadInterval)
  }
  \<close>
\<close>

definition start :: "scheduler \<Rightarrow> scheduler" where
  "start s =
     (if timerFn s \<noteq> None then s
      else (case setInterval (lookAheadInterval s) s of
              (t, s1) \<Rightarrow> s1\<lparr>timerFn := Some t\<rparr>))"

text \<open>\<^verbatim>\<open>stop()\<close> and \<^verbatim>\<open>pause()\<close>: \<^verbatim>\<open>clearInterval(this.timerFn); this.timerFn = null\<close>.\<close>

definition stop :: "scheduler \<Rightarrow> scheduler" where
  "stop s = (clearInterval (timerFn s) s)\<lparr>timerFn := None\<rparr>"

definition pause :: "scheduler \<Rightarrow> scheduler" where
  "pause s = (clearInterval (timerFn s) s)\<lparr>timerFn := None\<rparr>"

text \<open>
  The timers the scheduler has running are exactly the one \<^verbatim>\<open>timerFn\<close> names: none
  when it is \<^verbatim>\<open>null\<close>.
\<close>

definition timer_inv :: "scheduler \<Rightarrow> bool" where
  "timer_inv s \<longleftrightarrow>
     map fst (activeIntervals s) = (case timerFn s of None \<Rightarrow> [] | Some t \<Rightarrow> [t])"

section \<open>Lexical tokens\<close>

text \<open>
  \<^verbatim>\<open>LexicalTokenType\<close> and the lexical token
  \<^verbatim>\<open>{type, value, start, length, block}\<close> as the lexer hands it over. An error of the
  lexical analysis carries the tokens it spans (\<^verbatim>\<open>e.tokens\<close>); the results of the lexical
  analysis are \<^verbatim>\<open>{tokens, errors}\<close>.
\<close>

datatype LexicalTokenType =
  Bracket | Delimiter | Quote | Rest | Operator | Comment | Number | Hz | HzUnit
| Identifier | Error

record lexical_token =
  tok_type :: LexicalTokenType
  tok_value :: string
  tok_start :: nat
  tok_length :: nat
  tok_block :: string

record lexical_error =
  err_tokens :: "lexical_token list"

record lexicon =
  tokens :: "lexical_token list"
  errors :: "lexical_error list"

section \<open>The symbol table (\<^verbatim>\<open>SymbolTable\<close>)\<close>

text \<open>
  A JavaScript object used as a dictionary is an association list with distinct keys, in
  insertion order: an assignment to an existing key keeps its place, a new key goes to the
  end, \<^verbatim>\<open>delete\<close> drops the key. Identifiers are taken not to be names of properties
  of \<^verbatim>\<open>Object.prototype\<close>, so that \<^verbatim>\<open>k in obj\<close> is true exactly for the keys.
\<close>

definition js_in :: "'k \<Rightarrow> ('k \<times> 'a) list \<Rightarrow> bool" where
  "js_in k obj \<longleftrightarrow> k \<in> set (map fst obj)"

text \<open>
  The lodash functions used: \<^verbatim>\<open>uniq\<close> keeps the first occurrence of each value;
  \<^verbatim>\<open>xor\<close> is the symmetric difference and \<^verbatim>\<open>intersection\<close> the intersection, both
  without duplicates and in order of occurrence; \<^verbatim>\<open>keys\<close> and \<^verbatim>\<open>values\<close> list an
  object's keys and values; \<^verbatim>\<open>flatMap\<close> maps and flattens one level.
\<close>

definition uniq :: "'a list \<Rightarrow> 'a list" where
  "uniq xs = rev (remdups (rev xs))"

definition xor_lodash :: "'a list \<Rightarrow> 'a list \<Rightarrow> 'a list" where
  "xor_lodash xs ys = uniq (filter (\<lambda>x. x \<notin> set ys) xs @ filter (\<lambda>y. y \<notin> set xs) ys)"

definition intersection :: "'a list \<Rightarrow> 'a list \<Rightarrow> 'a list" where
  "intersection xs ys = uniq (filter (\<lambda>x. x \<in> set ys) xs)"

definition keys :: "('k \<times> 'a) list \<Rightarrow> 'k list" where
  "keys obj = map fst obj"

definition values_lodash :: "('k \<times> 'a) list \<Rightarrow> 'a list" where
  "values_lodash obj = map snd obj"

definition flatMap :: "'a list \<Rightarrow> ('a \<Rightarrow> 'b list) \<Rightarrow> 'b list" where
  "flatMap xs f = concat (map f xs)"

text \<open>
  A record of the table, \<^verbatim>\<open>{type, status, value}\<close> with \<open>None\<close> for \<^verbatim>\<open>null\<close>; its
  \<^verbatim>\<open>identifier\<close> property is the key it is stored under. The argument of \<^verbatim>\<open>merge\<close> has
  the \<^verbatim>\<open>identifier\<close> and any of the other fields: \<open>None\<close> for a field that is not
  given, \<open>Some None\<close> for one given as \<^verbatim>\<open>null\<close>.
\<close>

record 'v symbol =
  sym_type :: "string option"
  sym_status :: "string option"
  sym_value :: "'v option"

record 'v symbol_fields =
  "identifier" :: string
  type_field :: "string option option"
  status_field :: "string option option"
  value_field :: "'v option option"

text \<open>
  What \<^verbatim>\<open>_fetchNewSound\<close> waits for at each \<^verbatim>\<open>await\<close>, and the requests it sends.
\<close>

datatype task = AwaitSearch string | AwaitDownload string | AwaitDecode string

datatype request = SearchRequest string | DownloadRequest string | DecodeRequest string

text \<open>
  The table: the fields \<^verbatim>\<open>symbols\<close>, \<^verbatim>\<open>activeIdentifiersByBlock\<close> and
  \<^verbatim>\<open>fetchWaitInterval\<close> of the object, and what it has handed to its host: the callbacks
  registered with \<^verbatim>\<open>setTimeout\<close> that have not fired yet (the delay and the symbol the
  callback resolves), the calls of \<^verbatim>\<open>_fetchNewSound\<close> suspended at an \<^verbatim>\<open>await\<close>, the
  requests sent, and the status changes shown through \<^verbatim>\<open>updateVisualStatus\<close>.
\<close>

record 'v symbol_table =
  symbols :: "(string \<times> 'v symbol) list"
  activeIdentifiersByBlock :: "(string \<times> string list) list"
  fetchWaitInterval :: nat
  timeouts :: "(nat \<times> 'v symbol_fields) list"
  inflight :: "task list"
  requests :: "request list"
  visual :: "(string \<times> string) list"

definition new_SymbolTable :: "'v symbol_table" where
  "new_SymbolTable =
     \<lparr>symbols = [], activeIdentifiersByBlock = [], fetchWaitInterval = 1000,
      timeouts = [], inflight = [], requests = [], visual = []\<rparr>"

text \<open>\<^verbatim>\<open>{...fields, ...symbol}\<close>: the fields given in \<^verbatim>\<open>symbol\<close> win.\<close>

definition spread_symbol :: "'v symbol \<Rightarrow> 'v symbol_fields \<Rightarrow> 'v symbol" where
  "spread_symbol flds symbol =
     \<lparr>sym_type = (case type_field symbol of None \<Rightarrow> sym_type flds | Some x \<Rightarrow> x),
      sym_status = (case status_field symbol of None \<Rightarrow> sym_status flds | Some x \<Rightarrow> x),
      sym_value = (case value_field symbol of None \<Rightarrow> sym_value flds | Some x \<Rightarrow> x)\<rparr>"

text \<open>
  \<^verbatim>\<open>
  merge(symbol) {
    const exists = symbol.identifier in this.symbols
    const fields = exists ? this.symbols[symbol.identifier]
                          : { type: null, status: null, value: null }
    this.symbols[symbol.identifier] = { ...fields, ...symbol }
    if (!exists && symbol.type && symbol.type === 'sound')
      setTimeout(() => this._fetchNewSound(symbol), this.fetchWaitInterval)
  }
  \<close>
\<close>

definition merge :: "'v symbol_fields \<Rightarrow> 'v symbol_table \<Rightarrow> 'v symbol_table" where
  "merge symbol t =
     (let exists = js_in (identifier symbol) (symbols t);
          flds = (case map_of (symbols t) (identifier symbol) of
                      Some f \<Rightarrow> f
                    | None \<Rightarrow> \<lparr>sym_type = None, sym_status = None, sym_value = None\<rparr>);
          t1 = t\<lparr>symbols :=
                   AList.update (identifier symbol) (spread_symbol flds symbol) (symbols t)\<rparr>
      in if \<not> exists \<and> type_field symbol = Some (Some ''sound'')
         then t1\<lparr>timeouts := timeouts t1 @ [(fetchWaitInterval t1, symbol)]\<rparr>
         else t1)"

text \<open>\<^verbatim>\<open>get(identifier)\<close>: the record, or \<^verbatim>\<open>null\<close>.\<close>

definition get :: "string \<Rightarrow> 'v symbol_table \<Rightarrow> 'v symbol option" where
  "get i t = (if js_in i (symbols t) then map_of (symbols t) i else None)"

text \<open>\<^verbatim>\<open>remove(identifier)\<close>: \<^verbatim>\<open>delete this.symbols[identifier]\<close>.\<close>

definition remove :: "string \<Rightarrow> 'v symbol_table \<Rightarrow> 'v symbol_table" where
  "remove i t = t\<lparr>symbols := AList.delete i (symbols t)\<rparr>"

text \<open>\<^verbatim>\<open>updateVisualStatus(identifier, status)\<close> marks the elements that show the identifier.\<close>

definition updateVisualStatus :: "string \<Rightarrow> string \<Rightarrow> 'v symbol_table \<Rightarrow> 'v symbol_table" where
  "updateVisualStatus i status t = t\<lparr>visual := visual t @ [(i, status)]\<rparr>"

text \<open>
  \<^verbatim>\<open>
  updateActiveIdentifiers(blockKey, lexicon) {
    this.activeIdentifiersByBlock[blockKey] = uniq([
      ...lexicon.tokens.filter(t => t.type === 'IDENTIFIER').map(t => t.value),
      ...flatMap(lexicon.errors, e => e.tokens).filter(t => t.type === 'IDENTIFIER').map(t => t.value)
    ])
    const allActiveIdentifiers = uniq(flatMap(values(this.activeIdentifiersByBlock)))
    const identifiersInSymbolTable = keys(this.symbols)
    const danglingIdentifiers =
      intersection(xor(identifiersInSymbolTable, allActiveIdentifiers), identifiersInSymbolTable)
    for (const danglingIdentifier of danglingIdentifiers) this.remove(danglingIdentifier)
  }
  \<close>
\<close>

definition identifierValues :: "lexical_token list \<Rightarrow> string list" where
  "identifierValues ts = map tok_value (filter (\<lambda>t. tok_type t = Identifier) ts)"

definition allActiveIdentifiers :: "'v symbol_table \<Rightarrow> string list" where
  "allActiveIdentifiers t = uniq (flatMap (values_lodash (activeIdentifiersByBlock t)) (\<lambda>v. v))"

definition danglingIdentifiers :: "'v symbol_table \<Rightarrow> string list" where
  "danglingIdentifiers t =
     intersection (xor_lodash (keys (symbols t)) (allActiveIdentifiers t)) (keys (symbols t))"

definition updateActiveIdentifiers :: "string \<Rightarrow> lexicon \<Rightarrow> 'v symbol_table \<Rightarrow> 'v symbol_table" where
  "updateActiveIdentifiers blockKey lx t =
     (let t1 = t\<lparr>activeIdentifiersByBlock :=
                   AList.update blockKey
                     (uniq (identifierValues (tokens lx) @
                            identifierValues (flatMap (errors lx) err_tokens)))
                     (activeIdentifiersByBlock t)\<rparr>
      in foldl (\<lambda>t' danglingIdentifier. remove danglingIdentifier t') t1 (danglingIdentifiers t1))"

text \<open>
  \<^verbatim>\<open>_fetchNewSound(symbol)\<close> is an \<^verbatim>\<open>async\<close> function: it runs without interruption up
  to each \<^verbatim>\<open>await\<close>, and other calls on the table can run before it resumes. Its four
  stretches are four functions.

  The first stretch, from the call to the first \<^verbatim>\<open>await\<close>:
  \<^verbatim>\<open>
  if (!(symbol.identifier in this.symbols)) return
  this.merge( {identifier: symbol.identifier, status: 'searching'} )
  this.updateVisualStatus(symbol.identifier, 'searching')
  const { results } = await fetch(...search for symbol.identifier...).then(res => res.json())
  \<close>
\<close>

definition fetchNewSound :: "'v symbol_fields \<Rightarrow> 'v symbol_table \<Rightarrow> 'v symbol_table" where
  "fetchNewSound symbol t =
     (if \<not> js_in (identifier symbol) (symbols t) then t
      else
        (let t1 = merge \<lparr>identifier = identifier symbol, type_field = None,
                         status_field = Some (Some ''searching''), value_field = None\<rparr> t;
             t2 = updateVisualStatus (identifier symbol) ''searching'' t1
         in t2\<lparr>requests := requests t2 @ [SearchRequest (identifier symbol)],
               inflight := inflight t2 @ [AwaitSearch (identifier symbol)]\<rparr>))"

text \<open>
  The second stretch resumes with the \<^verbatim>\<open>results\<close> of the search (\<open>None\<close> where the
  answer has none; otherwise the preview address of each result) and runs to the second
  \<^verbatim>\<open>await\<close>; \<open>r\<close> is the value of \<^verbatim>\<open>Math.random()\<close>:
  \<^verbatim>\<open>
  if (!results || results.length === 0) {
    this.merge( {identifier: symbol.identifier, status: 'unavailable'} )
    this.updateVisualStatus(symbol.identifier, 'unavailable')
    return
  }
  const result = results[Math.floor(Math.random() * results.length)]
  let previewUrl = result.previews["preview-hq-mp3"]
  this.merge( {identifier: symbol.identifier, status: 'downloading'} )
  this.updateVisualStatus(symbol.identifier, 'downloading')
  const buffer = await fetch(previewUrl).then(res => res.arrayBuffer())
  \<close>
  Reading \<^verbatim>\<open>previews\<close> of \<^verbatim>\<open>undefined\<close> ends the call with an exception.
\<close>

definition fetchNewSound_searched ::
  "string \<Rightarrow> string list option \<Rightarrow> rat \<Rightarrow> 'v symbol_table \<Rightarrow> 'v symbol_table" where
  "fetchNewSound_searched i results r t =
     (if AwaitSearch i \<notin> set (inflight t) then t
      else
        (let t0 = t\<lparr>inflight := remove1 (AwaitSearch i) (inflight t)\<rparr>;
             unavailable =
               updateVisualStatus i ''unavailable''
                 (merge \<lparr>identifier = i, type_field = None,
                         status_field = Some (Some ''unavailable''), value_field = None\<rparr> t0)
         in case results of
              None \<Rightarrow> unavailable
            | Some rs \<Rightarrow>
                if length rs = 0 then unavailable
                else
                  (case js_index rs (nat \<lfloor>r * of_nat (length rs)\<rfloor>) of
                     None \<Rightarrow> t0
                   | Some previewUrl \<Rightarrow>
                       (let t1 = merge \<lparr>identifier = i, type_field = None,
                                        status_field = Some (Some ''downloading''),
                                        value_field = None\<rparr> t0;
                            t2 = updateVisualStatus i ''downloading'' t1
                        in t2\<lparr>requests := requests t2 @ [DownloadRequest previewUrl],
                              inflight := inflight t2 @ [AwaitDownload i]\<rparr>))))"

text \<open>
  The third stretch resumes with the downloaded buffer and runs to
  \<^verbatim>\<open>await audioContext.decodeAudioData(buffer.slice(0), () => {})\<close>; the fourth resumes
  with the decoded value:
  \<^verbatim>\<open>
  this.merge({ identifier: symbol.identifier, value: <decoded>, status: 'available' })
  this.updateVisualStatus(symbol.identifier, 'available')
  \<close>
\<close>

definition fetchNewSound_downloaded :: "string \<Rightarrow> 'v symbol_table \<Rightarrow> 'v symbol_table" where
  "fetchNewSound_downloaded i t =
     (if AwaitDownload i \<notin> set (inflight t) then t
      else t\<lparr>requests := requests t @ [DecodeRequest i],
             inflight := remove1 (AwaitDownload i) (inflight t) @ [AwaitDecode i]\<rparr>)"

definition fetchNewSound_decoded :: "string \<Rightarrow> 'v \<Rightarrow> 'v symbol_table \<Rightarrow> 'v symbol_table" where
  "fetchNewSound_decoded i v t =
     (if AwaitDecode i \<notin> set (inflight t) then t
      else
        updateVisualStatus i ''available''
          (merge \<lparr>identifier = i, type_field = None,
                  status_field = Some (Some ''available''), value_field = Some (Some v)\<rparr>
             (t\<lparr>inflight := remove1 (AwaitDecode i) (inflight t)\<rparr>)))"

text \<open>
  The host fires the oldest pending \<^verbatim>\<open>setTimeout\<close> callback (all have the same delay):
  \<^verbatim>\<open>() => this._fetchNewSound(symbol)\<close>.
\<close>

definition fire_timeout :: "'v symbol_table \<Rightarrow> 'v symbol_table" where
  "fire_timeout t =
     (case timeouts t of
        [] \<Rightarrow> t
      | (delay, symbol) # rest \<Rightarrow> fetchNewSound symbol (t\<lparr>timeouts := rest\<rparr>))"


section \<open>Semantic tokens\<close>

text \<open>
  \<^verbatim>\<open>SemanticTokenType\<close>. The \<^verbatim>\<open>type\<close> of a token the parser emits is a semantic type, or
  the lexical type of a token passed on as it is.
\<close>

datatype SemanticTokenType =
  Variable | VariableDecl | AssignmentOp | Fn | FnBracket | FnParameter
| FnParamKvDelimiter | FnParamDelimiter | SoundLiteral | BeatDivBracket
| SequenceBracket | ChoiceOp | RepetitionOp | ChainingOp

datatype token_type = Lexical LexicalTokenType | Semantic SemanticTokenType

text \<open>
  The object handed to \<^verbatim>\<open>pushToken\<close>, with \<open>None\<close> for a property that is absent or
  \<^verbatim>\<open>null\<close>, and the semantic token \<^verbatim>\<open>newSemanticToken\<close> makes of it:
  \<^verbatim>\<open>
  newSemanticToken = fields => ({
    id: null, instance: null, type: null, value: null, start: null, length: null, block: null,
    ...fields,
    instance: `${fields.block}-${fields.start}`
  })
  \<close>
  A parameter object is the list of its entries in enumeration order, the values as the
  strings a template literal renders them to.
\<close>

record token_fields =
  f_id :: "string option"
  f_type :: "token_type option"
  f_value :: "string option"
  f_start :: "nat option"
  f_length :: "nat option"
  f_block :: "string option"
  f_parameters :: "(string \<times> string) list option"

record semantic_token =
  st_id :: "string option"
  st_instance :: string
  st_type :: "token_type option"
  st_value :: "string option"
  st_start :: "nat option"
  st_length :: "nat option"
  st_block :: "string option"
  st_parameters :: "(string \<times> string) list option"

text \<open>
  \<^verbatim>\<open>{...token}\<close> for a lexical token, or for \<^verbatim>\<open>undefined\<close> (what \<^verbatim>\<open>consume()\<close> returns past
  the end of the stream), which has no properties.
\<close>

definition spread_token :: "lexical_token option \<Rightarrow> token_fields" where
  "spread_token tok =
     (case tok of
        None \<Rightarrow> \<lparr>f_id = None, f_type = None, f_value = None, f_start = None,
                  f_length = None, f_block = None, f_parameters = None\<rparr>
      | Some t \<Rightarrow> \<lparr>f_id = None, f_type = Some (Lexical (tok_type t)),
                    f_value = Some (tok_value t), f_start = Some (tok_start t),
                    f_length = Some (tok_length t), f_block = Some (tok_block t),
                    f_parameters = None\<rparr>)"

text \<open>
  A template literal renders a number in decimal and \<^verbatim>\<open>undefined\<close> as the word.
\<close>

fun show_nat :: "nat \<Rightarrow> string" where
  "show_nat n =
     (if n < 10 then [char_of (48 + n)]
      else show_nat (n div 10) @ [char_of (48 + n mod 10)])"

declare show_nat.simps [simp del]

definition template :: "('a \<Rightarrow> string) \<Rightarrow> 'a option \<Rightarrow> string" where
  "template render v = (case v of None \<Rightarrow> ''undefined'' | Some x \<Rightarrow> render x)"

definition newSemanticToken :: "token_fields \<Rightarrow> semantic_token" where
  "newSemanticToken fs =
     \<lparr>st_id = f_id fs,
      st_instance = template (\<lambda>b. b) (f_block fs) @ ''-'' @ template show_nat (f_start fs),
      st_type = f_type fs, st_value = f_value fs, st_start = f_start fs,
      st_length = f_length fs, st_block = f_block fs, st_parameters = f_parameters fs\<rparr>"

text \<open>
  Modelled from the spec: the \<^verbatim>\<open>ErrorToken\<close> \<^verbatim>\<open>{start, length, reasons, block}\<close>, with the
  fields the parser passes (the length is the difference of two offsets).
\<close>

record error_token =
  et_start :: nat
  et_length :: int
  et_reasons :: "string list"
  et_block :: "string option"

text \<open>
  Modelled from the spec: \<^verbatim>\<open>newErrorToken\<close>, which the parser imports from the token types
  and the token types do not define; it makes the \<^verbatim>\<open>ErrorToken\<close> of the fields given.
  The errors of a result are those of the lexical analysis followed by the error tokens
  pushed.
\<close>

definition newErrorToken :: "error_token \<Rightarrow> error_token" where
  "newErrorToken e = e"

datatype parse_error = LexicalError lexical_error | ErrorToken error_token

section \<open>Parameter objects and strings\<close>

text \<open>
  The own keys of an object are enumerated array indices first, in ascending numeric
  order, then the other string keys in the order of their creation. An array index is
  the canonical decimal numeral of a number below \<open>2\<^sup>3\<^sup>2 - 1\<close>. \<open>js_set\<close> is an
  assignment \<^verbatim>\<open>obj[k] = v\<close> on the list of entries in enumeration order and
  \<open>js_spread\<close> is \<^verbatim>\<open>{...a, ...b}\<close>.
\<close>

definition is_digit :: "char \<Rightarrow> bool" where
  "is_digit c \<longleftrightarrow> 48 \<le> (of_char c :: nat) \<and> (of_char c :: nat) \<le> 57"

definition digits_value :: "string \<Rightarrow> nat" where
  "digits_value s = foldl (\<lambda>n c. 10 * n + ((of_char c :: nat) - 48)) 0 s"

definition array_index :: "string \<Rightarrow> nat option" where
  "array_index s =
     (if s \<noteq> [] \<and> list_all is_digit s \<and> (s = ''0'' \<or> hd s \<noteq> CHR ''0'') \<and>
         digits_value s < 4294967295
      then Some (digits_value s) else None)"

fun insert_index_key :: "nat \<Rightarrow> string \<Rightarrow> 'a \<Rightarrow> (string \<times> 'a) list \<Rightarrow> (string \<times> 'a) list" where
  "insert_index_key n k v [] = [(k, v)]"
| "insert_index_key n k v ((k', v') # obj) =
     (case array_index k' of
        None \<Rightarrow> (k, v) # (k', v') # obj
      | Some n' \<Rightarrow>
          if n < n' then (k, v) # (k', v') # obj
          else (k', v') # insert_index_key n k v obj)"

definition js_set :: "string \<Rightarrow> 'a \<Rightarrow> (string \<times> 'a) list \<Rightarrow> (string \<times> 'a) list" where
  "js_set k v obj =
     (if k \<in> set (map fst obj) then AList.update k v obj
      else (case array_index k of
              None \<Rightarrow> obj @ [(k, v)]
            | Some n \<Rightarrow> insert_index_key n k v obj))"

definition js_spread :: "(string \<times> 'a) list \<Rightarrow> (string \<times> 'a) list \<Rightarrow> (string \<times> 'a) list" where
  "js_spread a b = foldl (\<lambda>obj (k, v). js_set k v obj) [] (a @ b)"

text \<open>
  \<^verbatim>\<open>
  const paramStr = reduce(parameters, (acc, v, k) => `${acc}${acc === '' ? '' : '_'}${k}-${v}`, '')
  \<close>
  lodash's \<^verbatim>\<open>reduce\<close> visits the entries of the object in enumeration order (the object
  is taken not to have a numeric \<^verbatim>\<open>length\<close> property, which would make lodash treat it
  as an array).
\<close>

definition paramStr :: "(string \<times> string) list \<Rightarrow> string" where
  "paramStr parameters =
     foldl (\<lambda>acc (k, v). acc @ (if acc = [] then [] else ''_'') @ k @ ''-'' @ v)
       [] parameters"

text \<open>
  \<^verbatim>\<open>value.replace(/\s+/g, '_')\<close>: every maximal run of white space becomes one underscore.
  Strings are lists of 8-bit characters; the white space of \<^verbatim>\<open>\s\<close> in that range is the
  characters 9 to 13, 32 and 160.
\<close>

definition is_space :: "char \<Rightarrow> bool" where
  "is_space c \<longleftrightarrow> (of_char c :: nat) \<in> {9, 10, 11, 12, 13, 32, 160}"

function replace_spaces :: "string \<Rightarrow> string" where
  "replace_spaces [] = []"
| "replace_spaces (c # cs) =
     (if is_space c then CHR ''_'' # replace_spaces (dropWhile is_space cs)
      else c # replace_spaces cs)"
  by pat_completeness auto
termination
  by (relation "measure length") (auto simp: length_dropWhile_le le_imp_less_Suc)

text \<open>
  \<^verbatim>\<open>/[...]/.test(v)\<close> for a character class: some character of \<open>v\<close> is in the class.
\<close>

definition test_class :: "string \<Rightarrow> string \<Rightarrow> bool" where
  "test_class cls v = list_ex (\<lambda>c. c \<in> set cls) v"

section \<open>The first-pass parser (\<^verbatim>\<open>FirstPassParser\<close>)\<close>

text \<open>
  The queries the parser puts to the symbol table. The symbol table at hand does not
  define them; they are parameters of the parser's functions.
\<close>

record symbol_table_queries =
  isVariable :: "string \<Rightarrow> bool"
  isFn :: "string \<Rightarrow> bool"
  isFnParameter :: "string \<Rightarrow> string \<Rightarrow> bool"
  isFnFlagParameter :: "string \<Rightarrow> string \<Rightarrow> bool"
  isValidFnArg :: "string \<Rightarrow> string \<Rightarrow> lexical_token \<Rightarrow> bool"
  translateFnArgs :: "string \<Rightarrow> string \<Rightarrow> lexical_token list \<Rightarrow> (string \<times> string) list"

text \<open>
  The parser object: \<^verbatim>\<open>token = {stream, index}\<close>, \<^verbatim>\<open>block = {key, index}\<close> and
  \<^verbatim>\<open>result = {tokens, errors}\<close>.
\<close>

record parser =
  token_stream :: "lexical_token list"
  token_index :: nat
  block_key :: "string option"
  block_index :: "nat option"
  result_tokens :: "semantic_token list"
  result_errors :: "parse_error list"

definition new_FirstPassParser :: parser where
  "new_FirstPassParser =
     \<lparr>token_stream = [], token_index = 0, block_key = None, block_index = None,
      result_tokens = [], result_errors = []\<rparr>"

definition reset :: "lexicon \<Rightarrow> string \<Rightarrow> nat \<Rightarrow> parser \<Rightarrow> parser" where
  "reset lx key idx p =
     \<lparr>token_stream = tokens lx, token_index = 0, block_key = Some key, block_index = Some idx,
      result_tokens = [], result_errors = map LexicalError (errors lx)\<rparr>"

text \<open>
  \<^verbatim>\<open>
  peek(skipAhead = 0) {
    const at = this.token.index + skipAhead
    return at <= (this.token.stream.length - 1) && at >= 0 ? this.token.stream[at] : null
  }
  advance() { return this.token.stream[++this.token.index] }
  consume() { return this.token.stream[this.token.index++] }
  pushToken(token) { this.result.tokens.push(newSemanticToken(token)) }
  pushError(error) { this.result.errors.push(newErrorToken(error)) }
  \<close>
  The value \<^verbatim>\<open>advance()\<close> returns is not used by its callers. \<open>push_consumed ty\<close> is
  \<^verbatim>\<open>this.pushToken({...this.consume(), type: ty})\<close>.
\<close>

definition peek :: "parser \<Rightarrow> int \<Rightarrow> lexical_token option" where
  "peek p skipAhead =
     (let pos = int (token_index p) + skipAhead
      in if pos \<le> int (length (token_stream p)) - 1 \<and> pos \<ge> 0
         then Some (token_stream p ! nat pos) else None)"

definition parser_advance :: "parser \<Rightarrow> parser" where
  "parser_advance p = p\<lparr>token_index := token_index p + 1\<rparr>"

definition consume :: "parser \<Rightarrow> lexical_token option \<times> parser" where
  "consume p = (js_index (token_stream p) (token_index p), p\<lparr>token_index := token_index p + 1\<rparr>)"

definition pushToken :: "token_fields \<Rightarrow> parser \<Rightarrow> parser" where
  "pushToken fs p = p\<lparr>result_tokens := result_tokens p @ [newSemanticToken fs]\<rparr>"

definition pushError :: "error_token \<Rightarrow> parser \<Rightarrow> parser" where
  "pushError e p = p\<lparr>result_errors := result_errors p @ [ErrorToken (newErrorToken e)]\<rparr>"

definition push_consumed :: "SemanticTokenType \<Rightarrow> parser \<Rightarrow> parser" where
  "push_consumed ty p =
     (case consume p of
        (tok, p1) \<Rightarrow> pushToken ((spread_token tok)\<lparr>f_type := Some (Semantic ty)\<rparr>) p1)"

text \<open>
  \<^verbatim>\<open>
  isSoundLiteral(identifier) { return !this.isFn(identifier) && !this.isVariable(identifier) }
  hasQueryParameters() {
    return this.peek(-1) && this.peek(-1).type === LexicalTokenType.Identifier &&
      this.isSoundLiteral(this.peek(-1).value) && this.hasFnParameters('_soundFn')
  }
  hasFnParameters(fnName) {
    return this.peek() && this.peek().value === '(' && this.peek(1) &&
      this.symbolTable.isFnParameter(fnName, this.peek(1).value)
  }
  \<close>
\<close>

definition isSoundLiteral :: "symbol_table_queries \<Rightarrow> string \<Rightarrow> bool" where
  "isSoundLiteral st i \<longleftrightarrow> \<not> isFn st i \<and> \<not> isVariable st i"

definition hasFnParameters :: "symbol_table_queries \<Rightarrow> string \<Rightarrow> parser \<Rightarrow> bool" where
  "hasFnParameters st fnName p =
     (case peek p 0 of
        None \<Rightarrow> False
      | Some t \<Rightarrow>
          tok_value t = ''('' \<and>
          (case peek p 1 of
             None \<Rightarrow> False
           | Some u \<Rightarrow> isFnParameter st fnName (tok_value u)))"

definition hasQueryParameters :: "symbol_table_queries \<Rightarrow> parser \<Rightarrow> bool" where
  "hasQueryParameters st p =
     (case peek p (- 1) of
        None \<Rightarrow> False
      | Some t \<Rightarrow>
          tok_type t = Identifier \<and> isSoundLiteral st (tok_value t) \<and>
          hasFnParameters st ''_soundFn'' p)"

text \<open>
  \<^verbatim>\<open>
  parseErrorUntilEndOfParamScope() {
    const start = this.peek().start
    while (this.peek() && !/[\),]/.test(this.peek().value)) this.advance()
    if (/[,]/.test(this.peek().value)) this.advance()
    const end = this.peek(-1).start + this.peek(-1).length
    this.pushError({ start, length: end - start, reasons: [], block: this.block.key})
  }
  \<close>
  \<open>skip_to_scope_end\<close> is the \<^verbatim>\<open>while\<close> loop. Reading a property of \<^verbatim>\<open>null\<close> is a
  \<^verbatim>\<open>TypeError\<close>.
\<close>

lemma peek_0_Some: "peek p 0 = Some t \<Longrightarrow> token_index p < length (token_stream p)"
  by (auto simp: peek_def Let_def split: if_splits)

function skip_to_scope_end :: "parser \<Rightarrow> parser" where
  "skip_to_scope_end p =
     (case peek p 0 of
        None \<Rightarrow> p
      | Some t \<Rightarrow>
          if test_class '',)'' (tok_value t) then p
          else skip_to_scope_end (parser_advance p))"
  by pat_completeness auto
termination
  by (relation "measure (\<lambda>p. length (token_stream p) - token_index p)")
     (auto simp: parser_advance_def dest: peek_0_Some)

declare skip_to_scope_end.simps [simp del]

definition parseErrorUntilEndOfParamScope :: "parser \<Rightarrow> error + parser" where
  "parseErrorUntilEndOfParamScope p =
     (case peek p 0 of
        None \<Rightarrow> Inl TypeError
      | Some t0 \<Rightarrow>
          (let start = tok_start t0;
               p1 = skip_to_scope_end p
           in case peek p1 0 of
                None \<Rightarrow> Inl TypeError
              | Some t1 \<Rightarrow>
                  (let p2 = (if test_class '','' (tok_value t1) then parser_advance p1 else p1)
                   in case peek p2 (- 1) of
                        None \<Rightarrow> Inl TypeError
                      | Some t2 \<Rightarrow>
                          Inr (pushError
                                 \<lparr>et_start = start,
                                  et_length = int (tok_start t2 + tok_length t2) - int start,
                                  et_reasons = [], et_block = block_key p2\<rparr> p2))))"

text \<open>
  The loop of \<^verbatim>\<open>parseFnParameters\<close> that pops the tokens of an argument:
  \<^verbatim>\<open>while (this.peek() && !/[,\)]/.test(this.peek().value)) args.push(this.consume())\<close>;
  \<^verbatim>\<open>consume()\<close> returns the token \<^verbatim>\<open>peek()\<close> has just returned.
\<close>

function consume_args :: "parser \<Rightarrow> lexical_token list \<times> parser" where
  "consume_args p =
     (case peek p 0 of
        None \<Rightarrow> ([], p)
      | Some t \<Rightarrow>
          if test_class '',)'' (tok_value t) then ([], p)
          else (case consume_args (snd (consume p)) of
                  (args, p') \<Rightarrow> (t # args, p')))"
  by pat_completeness auto
termination
  by (relation "measure (\<lambda>p. length (token_stream p) - token_index p)")
     (auto simp: consume_def dest: peek_0_Some)

declare consume_args.simps [simp del]

text \<open>
  One round of the \<^verbatim>\<open>while\<close> loop of \<^verbatim>\<open>parseFnParameters(fnName)\<close>, entered with
  \<^verbatim>\<open>this.peek()\<close> a token that has no closing bracket in it:
  \<^verbatim>\<open>
  if (!this.symbolTable.isFnParameter(fnName, this.peek().value)) {
    this.parseErrorUntilEndOfParamScope(); continue
  }
  if (this.symbolTable.isFnFlagParameter(fnName, this.peek().value)) {
    parameters = {...parameters, ...this.symbolTable.translateFnArgs(fnName, this.peek().value, [])}
    this.pushToken({...this.consume(), type: SemanticTokenType.FnParameter})
    if (/[,]/.test(this.peek().value))
      this.pushToken({...this.consume(), type: SemanticTokenType.FnParamDelimiter})
    continue
  }
  if (this.peek(1) && !/[:]/.test(this.peek(1).value)) {
    this.parseErrorUntilEndOfParamScope(); continue
  }
  if (this.peek(2) && !this.symbolTable.isValidFnArg(fnName, this.peek().value, this.peek(2))) {
    this.parseErrorUntilEndOfParamScope(); continue
  }
  const paramName = {...this.consume(), type: SemanticTokenType.FnParameter}
  const kvDelimiter = {...this.consume(), type: SemanticTokenType.FnParamKvDelimiter}
  let args = []
  while (this.peek() && !/[,\)]/.test(this.peek().value)) args.push(this.consume())
  this.pushToken(paramName)
  this.pushToken(kvDelimiter)
  args.forEach(a => this.pushToken(a))
  parameters = {...parameters, ...this.symbolTable.translateFnArgs(fnName, paramName.value, args)}
  if (/[,]/.test(this.peek().value))
    this.pushToken({...this.consume(), type: SemanticTokenType.FnParamDelimiter})
  \<close>
\<close>

definition parseFnParameter :: 
  "symbol_table_queries \<Rightarrow> string \<Rightarrow> (string \<times> string) list \<Rightarrow> parser \<Rightarrow>
     error + ((string \<times> string) list \<times> parser)" where
  "parseFnParameter st fnName parameters p =
     (case peek p 0 of
        None \<Rightarrow> Inl TypeError
      | Some t \<Rightarrow>
          if \<not> isFnParameter st fnName (tok_value t) then
            (case parseErrorUntilEndOfParamScope p of
               Inl e \<Rightarrow> Inl e
             | Inr p' \<Rightarrow> Inr (parameters, p'))
          else if isFnFlagParameter st fnName (tok_value t) then
            (let parameters' = js_spread parameters (translateFnArgs st fnName (tok_value t) []);
                 p1 = push_consumed FnParameter p
             in case peek p1 0 of
                  None \<Rightarrow> Inl TypeError
                | Some u \<Rightarrow>
                    Inr (parameters',
                         if test_class '','' (tok_value u) then push_consumed FnParamDelimiter p1
                         else p1))
          else if (case peek p 1 of None \<Rightarrow> False | Some u \<Rightarrow> \<not> test_class '':'' (tok_value u)) then
            (case parseErrorUntilEndOfParamScope p of
               Inl e \<Rightarrow> Inl e
             | Inr p' \<Rightarrow> Inr (parameters, p'))
          else if (case peek p 2 of None \<Rightarrow> False
                   | Some a \<Rightarrow> \<not> isValidFnArg st fnName (tok_value t) a) then
            (case parseErrorUntilEndOfParamScope p of
               Inl e \<Rightarrow> Inl e
             | Inr p' \<Rightarrow> Inr (parameters, p'))
          else
            (case consume p of
               (tok1, p1) \<Rightarrow>
                 (case consume p1 of
                    (tok2, p2) \<Rightarrow>
                      (case consume_args p2 of
                         (args, p3) \<Rightarrow>
                           (let paramName = (spread_token tok1)\<lparr>f_type := Some (Semantic FnParameter)\<rparr>;
                                kvDelimiter =
                                  (spread_token tok2)\<lparr>f_type := Some (Semantic FnParamKvDelimiter)\<rparr>;
                                p4 = pushToken kvDelimiter (pushToken paramName p3);
                                p5 = foldl (\<lambda>q a. pushToken (spread_token (Some a)) q) p4 args;
                                parameters' =
                                  js_spread parameters (translateFnArgs st fnName (tok_value t) args)
                            in case peek p5 0 of
                                 None \<Rightarrow> Inl TypeError
                               | Some u \<Rightarrow>
                                   Inr (parameters',
                                        if test_class '','' (tok_value u)
                                        then push_consumed FnParamDelimiter p5 else p5))))))"

text \<open>
  Every round of the loop moves the token index forward and leaves the stream as it is:
  the loop terminates.
\<close>

lemma skip_to_scope_end_frame:
  "token_stream (skip_to_scope_end p) = token_stream p \<and>
   token_index p \<le> token_index (skip_to_scope_end p)"
proof (induction p rule: skip_to_scope_end.induct)
  case (1 p)
  show ?case
  proof (cases "peek p 0")
    case None
    then show ?thesis by (simp add: skip_to_scope_end.simps[of p])
  next
    case (Some t)
    show ?thesis
    proof (cases "test_class '',)'' (tok_value t)")
      case True
      with Some show ?thesis by (simp add: skip_to_scope_end.simps[of p])
    next
      case False
      with Some "1.IH"[OF Some False] show ?thesis
        by (simp add: skip_to_scope_end.simps[of p] parser_advance_def)
    qed
  qed
qed

lemma skip_to_scope_end_progress:
  assumes "peek p 0 = Some t" and "\<not> test_class '',)'' (tok_value t)"
  shows "token_index p < token_index (skip_to_scope_end p)"
proof -
  from assms have "skip_to_scope_end p = skip_to_scope_end (parser_advance p)"
    by (simp add: skip_to_scope_end.simps[of p])
  with skip_to_scope_end_frame[of "parser_advance p"] show ?thesis
    by (simp add: parser_advance_def)
qed

lemma test_class_comma: "test_class '','' v \<Longrightarrow> test_class '',)'' v"
  by (auto simp: test_class_def list_ex_iff)

lemma parseErrorUntilEndOfParamScope_progress:
  assumes "peek p 0 = Some t" and "\<not> test_class '')'' (tok_value t)"
    and "parseErrorUntilEndOfParamScope p = Inr p'"
  shows "token_stream p' = token_stream p \<and> token_index p < token_index p'"
proof (cases "test_class '','' (tok_value t)")
  case True
  then have "skip_to_scope_end p = p"
    using assms(1) by (simp add: skip_to_scope_end.simps[of p] test_class_comma)
  with assms True show ?thesis
    by (auto simp: parseErrorUntilEndOfParamScope_def Let_def pushError_def parser_advance_def
        split: option.splits)
next
  case False
  with assms(2) have "\<not> test_class '',)'' (tok_value t)"
    by (auto simp: test_class_def list_ex_iff)
  from skip_to_scope_end_progress[OF assms(1) this] skip_to_scope_end_frame[of p] assms(3)
  show ?thesis
    by (auto simp: parseErrorUntilEndOfParamScope_def Let_def pushError_def parser_advance_def
        split: option.splits if_splits)
qed

lemma consume_args_frame:
  "consume_args p = (args, p') \<Longrightarrow>
     token_stream p' = token_stream p \<and> token_index p \<le> token_index p'"
proof (induction p arbitrary: args p' rule: consume_args.induct)
  case (1 p)
  show ?case
  proof (cases "peek p 0")
    case None
    with "1.prems" show ?thesis by (simp add: consume_args.simps[of p])
  next
    case (Some t)
    show ?thesis
    proof (cases "test_class '',)'' (tok_value t)")
      case True
      with Some "1.prems" show ?thesis by (simp add: consume_args.simps[of p])
    next
      case False
      obtain args1 p1 where r: "consume_args (snd (consume p)) = (args1, p1)"
        by (cases "consume_args (snd (consume p))") auto
      with Some False "1.prems" have "p' = p1"
        by (simp add: consume_args.simps[of p])
      with "1.IH"[OF Some False r] show ?thesis
        by (simp add: consume_def)
    qed
  qed
qed

lemma push_consumed_frame:
  "token_stream (push_consumed ty p) = token_stream p \<and>
   token_index (push_consumed ty p) = Suc (token_index p)"
  by (simp add: push_consumed_def consume_def pushToken_def)

lemma pushToken_frame:
  "token_stream (pushToken fs p) = token_stream p \<and> token_index (pushToken fs p) = token_index p"
  by (simp add: pushToken_def)

lemma foldl_pushToken_frame:
  "token_stream (foldl (\<lambda>q a. pushToken (f a) q) p args) = token_stream p \<and>
   token_index (foldl (\<lambda>q a. pushToken (f a) q) p args) = token_index p"
  by (induction args arbitrary: p) (simp_all add: pushToken_def)

lemma parseFnParameter_progress:
  assumes "peek p 0 = Some t" and "\<not> test_class '')'' (tok_value t)"
    and "parseFnParameter st fnName parameters p = Inr (parameters', p')"
  shows "token_stream p' = token_stream p \<and> token_index p < token_index p'"
proof -
  note ep = parseErrorUntilEndOfParamScope_progress[OF assms(1,2)]
  show ?thesis
  proof (cases "isFnParameter st fnName (tok_value t)")
    case False
    with assms(1,3) have "parseErrorUntilEndOfParamScope p = Inr p'"
      by (simp add: parseFnParameter_def split: sum.splits)
    then show ?thesis by (rule ep)
  next
    case isp: True
    show ?thesis
    proof (cases "isFnFlagParameter st fnName (tok_value t)")
      case True
      with isp assms(1,3)
      have "p' = push_consumed FnParameter p \<or>
            p' = push_consumed FnParamDelimiter (push_consumed FnParameter p)"
        by (auto simp: parseFnParameter_def Let_def split: option.splits if_splits)
      then show ?thesis by (auto simp: push_consumed_frame)
    next
      case nflag: False
      show ?thesis
      proof (cases "(case peek p 1 of None \<Rightarrow> False | Some u \<Rightarrow> \<not> test_class '':'' (tok_value u))")
        case True
        with isp nflag assms(1,3) have "parseErrorUntilEndOfParamScope p = Inr p'"
          by (simp add: parseFnParameter_def split: sum.splits)
        then show ?thesis by (rule ep)
      next
        case c1: False
        show ?thesis
        proof (cases "(case peek p 2 of None \<Rightarrow> False
                       | Some a \<Rightarrow> \<not> isValidFnArg st fnName (tok_value t) a)")
          case True
          with isp nflag c1 assms(1,3) have "parseErrorUntilEndOfParamScope p = Inr p'"
            by (simp add: parseFnParameter_def split: sum.splits)
          then show ?thesis by (rule ep)
        next
          case c2: False
          define p2 where "p2 = snd (consume (snd (consume p)))"
          obtain args p3 where ca: "consume_args p2 = (args, p3)"
            by (cases "consume_args p2") auto
          have p2: "token_stream p2 = token_stream p \<and> token_index p2 = token_index p + 2"
            by (simp add: p2_def consume_def)
          from isp nflag c1 c2 assms(1,3) ca
          have "token_stream p' = token_stream p3 \<and>
                (token_index p' = token_index p3 \<or> token_index p' = Suc (token_index p3))"
            unfolding parseFnParameter_def Let_def p2_def
            by (auto simp: consume_def push_consumed_frame pushToken_frame foldl_pushToken_frame
                split: option.splits if_splits)
          with consume_args_frame[OF ca] p2 show ?thesis
            by auto
        qed
      qed
    qed
  qed
qed

text \<open>
  \<^verbatim>\<open>
  parseFnParameters(fnName) {
    this.pushToken({...this.consume(), type: SemanticTokenType.FnBracket})
    let parameters = {}
    while (this.peek() && !/[\)]/.test(this.peek().value)) { ... }
    this.pushToken({...this.consume(), type: SemanticTokenType.FnBracket})
    return parameters
  }
  \<close>
\<close>

function parseFnParameters_loop ::
  "symbol_table_queries \<Rightarrow> string \<Rightarrow> (string \<times> string) list \<Rightarrow> parser \<Rightarrow>
     error + ((string \<times> string) list \<times> parser)" where
  "parseFnParameters_loop st fnName parameters p =
     (case peek p 0 of
        None \<Rightarrow> Inr (parameters, p)
      | Some t \<Rightarrow>
          if test_class '')'' (tok_value t) then Inr (parameters, p)
          else (case parseFnParameter st fnName parameters p of
                  Inl e \<Rightarrow> Inl e
                | Inr (parameters', p') \<Rightarrow> parseFnParameters_loop st fnName parameters' p'))"
  by pat_completeness auto
termination
proof (relation "measure (\<lambda>(st, fnName, parameters, p). length (token_stream p) - token_index p)")
  show "wf (measure (\<lambda>(st, fnName, parameters, p). length (token_stream p) - token_index p))"
    by simp
next
  fix st :: symbol_table_queries and fnName parameters p t r parameters' p'
  assume "peek p 0 = Some t" and "\<not> test_class '')'' (tok_value t)"
    and "parseFnParameter st fnName parameters p = Inr r" and "(parameters', p') = r"
  then have "token_stream p' = token_stream p \<and> token_index p < token_index p'"
    and "token_index p < length (token_stream p)"
    using parseFnParameter_progress[of p t st fnName parameters parameters' p'] peek_0_Some[of p t]
    by auto
  then show "((st, fnName, parameters', p'), (st, fnName, parameters, p))
      \<in> measure (\<lambda>(st, fnName, parameters, p). length (token_stream p) - token_index p)"
    by auto
qed

declare parseFnParameters_loop.simps [simp del]

definition parseFnParameters ::
  "symbol_table_queries \<Rightarrow> string \<Rightarrow> parser \<Rightarrow> error + ((string \<times> string) list \<times> parser)" where
  "parseFnParameters st fnName p =
     (case parseFnParameters_loop st fnName [] (push_consumed FnBracket p) of
        Inl e \<Rightarrow> Inl e
      | Inr (parameters, p1) \<Rightarrow> Inr (parameters, push_consumed FnBracket p1))"

text \<open>
  \<^verbatim>\<open>
  parseIdentifier() {
    if (this.isVariable(this.peek().value)) {
      this.pushToken({ ...this.consume(), type: SemanticTokenType.Variable })
    } else if (this.isSoundLiteral(this.peek().value)) {
      const soundLiteral = this.consume()
      let parameters = {}
      if (this.hasQueryParameters()) parameters = this.parseFnParameters(`_soundFn`)
      const paramStr = reduce(parameters, ...)
      this.pushToken({
        ...soundLiteral,
        type: SemanticTokenType.SoundLiteral,
        id: `${soundLiteral.value.replace(/\s+/g, '_')}__${paramStr}`,
        parameters,
      })
    } else { }
  }
  \<close>
\<close>

definition soundLiteral_id :: "string \<Rightarrow> (string \<times> string) list \<Rightarrow> string" where
  "soundLiteral_id v parameters = replace_spaces v @ ''__'' @ paramStr parameters"

definition parseIdentifier :: "symbol_table_queries \<Rightarrow> parser \<Rightarrow> error + parser" where
  "parseIdentifier st p =
     (case peek p 0 of
        None \<Rightarrow> Inl TypeError
      | Some t \<Rightarrow>
          if isVariable st (tok_value t) then Inr (push_consumed Variable p)
          else if isSoundLiteral st (tok_value t) then
            (case consume p of
               (soundLiteral, p1) \<Rightarrow>
                 (case (if hasQueryParameters st p1 then parseFnParameters st ''_soundFn'' p1
                        else Inr ([], p1)) of
                    Inl e \<Rightarrow> Inl e
                  | Inr (parameters, p2) \<Rightarrow>
                      Inr (pushToken
                             ((spread_token soundLiteral)
                                \<lparr>f_type := Some (Semantic SoundLiteral),
                                 f_id := Some (soundLiteral_id (tok_value t) parameters),
                                 f_parameters := Some parameters\<rparr>) p2)))
          else Inr p)"

text \<open>
  Two token streams for the same sound literal with the same two query parameters,
  written in the two orders, \<^verbatim>\<open>kick(a:1, b:2)\<close> and \<^verbatim>\<open>kick(b:2, a:1)\<close>, and symbol-table
  queries under which \<^verbatim>\<open>a\<close> and \<^verbatim>\<open>b\<close> are key-value parameters of \<^verbatim>\<open>_soundFn\<close>, every
  argument is valid, nothing is a variable or a function, and a parameter translates to
  its name and the text of its arguments.
\<close>

definition example_token :: "LexicalTokenType \<Rightarrow> string \<Rightarrow> nat \<Rightarrow> lexical_token" where
  "example_token ty v s =
     \<lparr>tok_type = ty, tok_value = v, tok_start = s, tok_length = length v, tok_block = ''b1''\<rparr>"

definition example_queries :: symbol_table_queries where
  "example_queries =
     \<lparr>isVariable = (\<lambda>i. False), isFn = (\<lambda>i. False),
      isFnParameter = (\<lambda>fnName k. k = ''a'' \<or> k = ''b''),
      isFnFlagParameter = (\<lambda>fnName k. False), isValidFnArg = (\<lambda>fnName k a. True),
      translateFnArgs = (\<lambda>fnName k args. [(k, concat (map tok_value args))])\<rparr>"

definition example_parser_ab :: parser where
  "example_parser_ab =
     reset \<lparr>tokens =
              [example_token Identifier ''kick'' 0, example_token Bracket ''('' 4,
               example_token Identifier ''a'' 5, example_token Delimiter '':'' 6,
               example_token Number ''1'' 7, example_token Delimiter '','' 8,
               example_token Identifier ''b'' 10, example_token Delimiter '':'' 11,
               example_token Number ''2'' 12, example_token Bracket '')'' 13],
            errors = []\<rparr> ''b1'' 0 new_FirstPassParser"

definition example_parser_ba :: parser where
  "example_parser_ba =
     reset \<lparr>tokens =
              [example_token Identifier ''kick'' 0, example_token Bracket ''('' 4,
               example_token Identifier ''b'' 5, example_token Delimiter '':'' 6,
               example_token Number ''2'' 7, example_token Delimiter '','' 8,
               example_token Identifier ''a'' 10, example_token Delimiter '':'' 11,
               example_token Number ''1'' 12, example_token Bracket '')'' 13],
            errors = []\<rparr> ''b1'' 0 new_FirstPassParser"

section \<open>Properties of the AST automaton\<close>

lemma advance_Sequence_Terminal:
  assumes "i < length sq" and "is_Terminal (sq ! i)"
  shows "advance rng k (Sequence c n (Some i) i sq) =
           Inr (Suc i = length sq,
                Sequence n (next' (sq ! (if Suc i = length sq then 0 else Suc i)))
                  (Some (if Suc i = length sq then 0 else Suc i))
                  (if Suc i = length sq then 0 else Suc i) sq, k)"
proof -
  obtain c0 n0 where ch: "sq ! i = Terminal c0 n0"
    using assms(2) by (cases "sq ! i") auto
  have upd: "sq[i := Terminal c0 n0] = sq"
    using ch by (metis list_update_id)
  have ne0: "sq \<noteq> []" "0 < length sq"
    using assms(1) by auto
  show ?thesis
  proof (cases "Suc i = length sq")
    case True
    then have "int i = int (length sq) - 1" by auto
    with True assms(1) ch upd ne0 show ?thesis
      by (simp add: js_index_def)
  next
    case False
    then have ne: "int i \<noteq> int (length sq) - 1" by auto
    from False assms(1) have lt: "Suc i < length sq" by simp
    from False ne lt assms(1) ch upd show ?thesis
      by (simp add: js_index_def)
  qed
qed

lemma advance_times_Sequence_Terminal:
  assumes "\<forall>ch\<in>set sq. is_Terminal ch" and "i < length sq" and "m = length sq - Suc i"
  shows "\<exists>c' n'. advance_times rng k (Sequence c n (Some i) i sq) (Suc m) =
           Inr (replicate m False @ [True], Sequence c' n' (Some 0) 0 sq, k)"
  using assms(2,3)
proof (induction m arbitrary: i c n)
  case 0
  then have last: "Suc i = length sq" by simp
  have "is_Terminal (sq ! i)" using assms(1) "0.prems"(1) by simp
  from advance_Sequence_Terminal[OF "0.prems"(1) this, of rng k c n] last
  show ?case by simp
next
  case (Suc m)
  then have lt: "Suc i < length sq" and m: "m = length sq - Suc (Suc i)" by simp_all
  have "is_Terminal (sq ! i)" using assms(1) Suc.prems(1) by simp
  from advance_Sequence_Terminal[OF Suc.prems(1) this, of rng k c n] lt
  have step: "advance rng k (Sequence c n (Some i) i sq) =
                Inr (False, Sequence n (next' (sq ! Suc i)) (Some (Suc i)) (Suc i) sq, k)"
    by simp
  from Suc.IH[OF lt m, of n "next' (sq ! Suc i)"]
  obtain c' n' where
    "advance_times rng k (Sequence n (next' (sq ! Suc i)) (Some (Suc i)) (Suc i) sq) (Suc m) =
       Inr (replicate m False @ [True], Sequence c' n' (Some 0) 0 sq, k)"
    by blast
  with step show ?case
    by (simp del: advance.simps)
qed

text \<open>
  C4. A \<^verbatim>\<open>Sequence\<close> constructed from N \<^verbatim>\<open>Terminal\<close> children (N at least 1) starts at child
  index 0; N calls of \<^verbatim>\<open>advance()\<close> return \<^verbatim>\<open>false\<close> N - 1 times and then \<^verbatim>\<open>true\<close> on the
  Nth call, and afterwards the child index is 0 again.
\<close>

theorem Sequence_round_robin:
  assumes "sq \<noteq> []" and "\<forall>ch\<in>set sq. is_Terminal ch" and "new_Sequence sq = Inr node"
  shows "currentNodeIndex node = 0 \<and>
         (\<exists>node' k'. advance_times rng k node (length sq) =
                       Inr (replicate (length sq - 1) False @ [True], node', k') \<and>
                     currentNodeIndex node' = 0)"
proof -
  from assms(1) have pos: "0 < length sq" by simp
  with assms(3) have node: "node = Sequence (current (sq ! 0)) (current (sq ! 0)) (Some 0) 0 sq"
    by (simp add: new_Sequence_def js_index_def)
  obtain N where N: "length sq = Suc N"
    using pos by (cases "length sq") auto
  then have "N = length sq - Suc 0" by simp
  from advance_times_Sequence_Terminal[OF assms(2) pos this,
      of rng k "current (sq ! 0)" "current (sq ! 0)"]
  obtain c' n' where adv:
    "advance_times rng k (Sequence (current (sq ! 0)) (current (sq ! 0)) (Some 0) 0 sq) (Suc N) =
       Inr (replicate N False @ [True], Sequence c' n' (Some 0) 0 sq, k)"
    by blast
  show ?thesis
    unfolding node N using adv by (simp del: advance_times.simps advance.simps)
qed

theorem Sequence_round_robin_witness:
  "[Terminal ''kick'' ''kick'', Terminal ''snare'' ''snare''] \<noteq> [] \<and>
   list_all is_Terminal [Terminal ''kick'' ''kick'', Terminal ''snare'' ''snare''] \<and>
   new_Sequence [Terminal ''kick'' ''kick'', Terminal ''snare'' ''snare''] =
     Inr (Sequence ''kick'' ''kick'' (Some 0) 0
            [Terminal ''kick'' ''kick'', Terminal ''snare'' ''snare'']) \<and>
   (\<exists>node' k'. advance_times (\<lambda>_. 0) 0
        (Sequence ''kick'' ''kick'' (Some 0) 0
           [Terminal ''kick'' ''kick'', Terminal ''snare'' ''snare'']) 2 =
        Inr ([False, True], node', k') \<and> currentNodeIndex node' = 0)"
proof -
  let ?sq = "[Terminal ''kick'' ''kick'', Terminal ''snare'' ''snare'']"
  have a: "?sq \<noteq> []" by simp
  have b: "\<forall>ch\<in>set ?sq. is_Terminal ch" by simp
  have c: "new_Sequence ?sq = Inr (Sequence ''kick'' ''kick'' (Some 0) 0 ?sq)"
    by (simp add: new_Sequence_def js_index_def)
  from Sequence_round_robin[OF a b c, of "\<lambda>_. 0" 0] a b c show ?thesis
    by (simp add: numeral_2_eq_2 del: advance_times.simps)
qed

text \<open>
  C8. Constructing a \<^verbatim>\<open>Sequence\<close> from an empty child list raises an error in the
  constructor, and constructing one from a non-empty list succeeds.
\<close>

theorem Sequence_empty_fails_at_construction:
  "new_Sequence ([] :: 's ast list) = Inl TypeError \<and>
   (\<forall>sq :: 's ast list. sq \<noteq> [] \<longrightarrow> (\<exists>node. new_Sequence sq = Inr node \<and> seq node = sq))"
  by (auto simp: new_Sequence_def js_index_def)

theorem Sequence_empty_fails_at_construction_witness:
  "new_Sequence ([] :: string ast list) = Inl TypeError \<and>
   [Terminal ''kick'' ''kick''] \<noteq> [] \<and>
   (\<exists>node. new_Sequence [Terminal ''kick'' ''kick''] = Inr node \<and>
           seq node = [Terminal ''kick'' ''kick''])"
  using Sequence_empty_fails_at_construction[where ?'s = string] by simp

text \<open>
  C10. Immediately after construction, \<^verbatim>\<open>current()\<close> and \<^verbatim>\<open>next()\<close> of a node are the same
  step: the given step for a \<^verbatim>\<open>Terminal\<close>, the current step of the first child for a
  \<^verbatim>\<open>Sequence\<close>, the current step of the chosen child for a \<^verbatim>\<open>Choice\<close>.
\<close>

theorem current_eq_next_after_construction:
  "(current (new_Terminal step) = step \<and> next' (new_Terminal step) = step) \<and>
   (new_Sequence sq = Inr node \<longrightarrow>
      next' node = current node \<and> current node = current (hd sq) \<and>
      currentNode node = Some 0) \<and>
   (new_Choice rng k chs ps = Inr (cnode, k') \<longrightarrow>
      next' cnode = current cnode \<and>
      (\<exists>j < length chs. currentNode cnode = Some j \<and> current cnode = current (chs ! j)))"
proof (intro conjI impI)
  show "current (new_Terminal step) = step" and "next' (new_Terminal step) = step"
    by (simp_all add: new_Terminal_def)
next
  assume "new_Sequence sq = Inr node"
  then show "next' node = current node" and "current node = current (hd sq)"
    and "currentNode node = Some 0"
    by (cases sq; auto simp: new_Sequence_def js_index_def)+
next
  assume c: "new_Choice rng k chs ps = Inr (cnode, k')"
  then show "next' cnode = current cnode"
    by (auto simp: new_Choice_def choose_fn_def js_index_def split: if_splits)
  from c show "\<exists>j < length chs. currentNode cnode = Some j \<and> current cnode = current (chs ! j)"
    by (auto simp: new_Choice_def choose_fn_def js_index_def split: if_splits)
qed

theorem current_eq_next_after_construction_witness:
  "new_Sequence [Terminal ''kick'' ''kick'', Terminal ''snare'' ''snare''] =
     Inr (Sequence ''kick'' ''kick'' (Some 0) 0
            [Terminal ''kick'' ''kick'', Terminal ''snare'' ''snare'']) \<and>
   new_Choice (\<lambda>_. 3 / 4) 0 [Terminal ''kick'' ''kick'', Terminal ''snare'' ''snare''] [1, 1] =
     Inr (Choice ''snare'' ''snare'' (Some 1)
            [Terminal ''kick'' ''kick'', Terminal ''snare'' ''snare''] [1, 1] [1, 2], 2) \<and>
   next' (Sequence ''kick'' ''kick'' (Some 0) 0
            [Terminal ''kick'' ''kick'', Terminal ''snare'' ''snare'']) = ''kick'' \<and>
   next' (Choice ''snare'' ''snare'' (Some 1)
            [Terminal ''kick'' ''kick'', Terminal ''snare'' ''snare''] [1, 1] [1, 2]) = ''snare''"
proof -
  let ?chs = "[Terminal ''kick'' ''kick'', Terminal ''snare'' ''snare'']"
  have a: "new_Sequence ?chs = Inr (Sequence ''kick'' ''kick'' (Some 0) 0 ?chs)"
    by (simp add: new_Sequence_def js_index_def)
  have b: "new_Choice (\<lambda>_. 3 / 4) 0 ?chs [1, 1] =
             Inr (Choice ''snare'' ''snare'' (Some 1) ?chs [1, 1] [1, 2], 2)"
    by (simp add: new_Choice_def choose_fn_def choose_pos_def derive_cdf_def js_index_def)
  from current_eq_next_after_construction[where sq = ?chs
      and node = "Sequence ''kick'' ''kick'' (Some 0) 0 ?chs"
      and rng = "\<lambda>_. 3 / 4" and k = 0 and chs = ?chs and ps = "[1, 1]"
      and cnode = "Choice ''snare'' ''snare'' (Some 1) ?chs [1, 1] [1, 2]" and k' = 2
      and step = "''kick''"] a b
  show ?thesis by simp
qed

subsection \<open>The cumulative-weight table\<close>







subsection \<open>Choosing a child\<close>






section \<open>Properties of the scheduler's timer\<close>

lemma timer_inv_new: "timer_inv new_Scheduler"
  by (simp add: timer_inv_def new_Scheduler_def)

lemma timer_inv_start: "timer_inv s \<Longrightarrow> timer_inv (start s)"
  by (auto simp: timer_inv_def start_def setInterval_def split: option.splits)

lemma filter_single: "map fst xs = [t] \<Longrightarrow> filter (\<lambda>e. fst e \<noteq> t) xs = []"
  by (cases xs) auto

lemma timer_inv_stop: "timer_inv s \<Longrightarrow> timer_inv (stop s)"
  by (auto simp: timer_inv_def stop_def clearInterval_def filter_single split: option.splits)

lemma timer_inv_pause: "timer_inv s \<Longrightarrow> timer_inv (pause s)"
  by (auto simp: timer_inv_def pause_def clearInterval_def filter_single split: option.splits)

text \<open>
  C9. \<^verbatim>\<open>Scheduler.start()\<close> is idempotent: while a timer is active it changes nothing,
  and two consecutive calls leave exactly one active timer.
\<close>

theorem start_idempotent:
  assumes "timer_inv s"
  shows "(timerFn s \<noteq> None \<longrightarrow> start s = s) \<and> start (start s) = start s \<and>
         length (activeIntervals (start (start s))) = 1 \<and>
         map fst (activeIntervals (start (start s))) = [the (timerFn (start (start s)))]"
proof -
  have 1: "timerFn s \<noteq> None \<longrightarrow> start s = s"
    by (simp add: start_def)
  have 2: "timerFn (start s) \<noteq> None"
    by (simp add: start_def setInterval_def)
  then have 3: "start (start s) = start s"
    by (simp add: start_def)
  from timer_inv_start[OF assms] 2
  have 4: "map fst (activeIntervals (start s)) = [the (timerFn (start s))]"
    by (auto simp: timer_inv_def)
  from arg_cong[OF 4, of length] have 5: "length (activeIntervals (start s)) = 1"
    by simp
  from 1 3 4 5 show ?thesis by simp
qed

theorem start_idempotent_witness:
  "timer_inv new_Scheduler \<and> start (start new_Scheduler) = start new_Scheduler \<and>
   activeIntervals (start (start new_Scheduler)) = [(1, 100)] \<and>
   timerFn (start (start new_Scheduler)) = Some 1"
  using start_idempotent[OF timer_inv_new] timer_inv_new
  by (simp add: start_def setInterval_def new_Scheduler_def)


section \<open>Properties of the symbol table\<close>

lemma set_uniq [simp]: "set (uniq xs) = set xs"
  by (simp add: uniq_def)

lemma set_danglingIdentifiers:
  "set (danglingIdentifiers t) = set (keys (symbols t)) - set (allActiveIdentifiers t)"
  by (auto simp: danglingIdentifiers_def intersection_def xor_lodash_def)

lemma symbols_remove_all:
  "symbols (foldl (\<lambda>t' d. remove d t') t ds) = filter (\<lambda>e. fst e \<notin> set ds) (symbols t)"
proof (induction ds arbitrary: t)
  case Nil
  then show ?case by simp
next
  case (Cons d ds)
  have "filter (\<lambda>e. fst e \<notin> set ds) (AList.delete d (symbols t)) =
        filter (\<lambda>e. fst e \<notin> set (d # ds)) (symbols t)"
    by (auto simp: AList.delete_eq intro!: filter_cong)
  with Cons.IH[of "remove d t"] show ?case
    by (simp add: remove_def)
qed

lemma active_remove_all:
  "activeIdentifiersByBlock (foldl (\<lambda>t' d. remove d t') t ds) = activeIdentifiersByBlock t"
  by (induction ds arbitrary: t) (auto simp: remove_def)

lemma map_of_filter_key:
  "map_of (filter (\<lambda>e. P (fst e)) xs) k = (if P k then map_of xs k else None)"
  by (induction xs) auto

lemma js_in_map_of: "js_in k obj \<longleftrightarrow> map_of obj k \<noteq> None"
  by (simp add: js_in_def map_of_eq_None_iff)

text \<open>
  C2, as stated, fails: an identifier that a block references and that was never merged
  into the table is in the union of the active identifiers and absent from \<^verbatim>\<open>symbols\<close>.
\<close>

theorem updateActiveIdentifiers_iff_counterexample:
  "''kick'' \<in> set (allActiveIdentifiers
      (updateActiveIdentifiers ''b1''
         \<lparr>tokens = [\<lparr>tok_type = Identifier, tok_value = ''kick'', tok_start = 0,
                      tok_length = 4, tok_block = ''b1''\<rparr>], errors = []\<rparr>
         (new_SymbolTable :: nat symbol_table))) \<and>
   \<not> js_in ''kick'' (symbols
      (updateActiveIdentifiers ''b1''
         \<lparr>tokens = [\<lparr>tok_type = Identifier, tok_value = ''kick'', tok_start = 0,
                      tok_length = 4, tok_block = ''b1''\<rparr>], errors = []\<rparr>
         (new_SymbolTable :: nat symbol_table)))"
  by (simp add: updateActiveIdentifiers_def new_SymbolTable_def allActiveIdentifiers_def
      danglingIdentifiers_def identifierValues_def flatMap_def values_lodash_def keys_def
      intersection_def xor_lodash_def uniq_def js_in_def)

text \<open>
  C2, amended. After every call of \<^verbatim>\<open>updateActiveIdentifiers(blockKey, lexicon)\<close>, an
  identifier is in the \<^verbatim>\<open>symbols\<close> map iff it was there before the call and is in the
  union of the active identifiers (the identifiers of tokens or error spans) across all
  blocks, and the records that stay are unchanged: an identifier of the table that no block
  references is removed, and one that another block still references survives.
\<close>

theorem updateActiveIdentifiers_prunes:
  "(js_in i (symbols (updateActiveIdentifiers blockKey lx t)) \<longleftrightarrow>
      js_in i (symbols t) \<and>
      i \<in> set (allActiveIdentifiers (updateActiveIdentifiers blockKey lx t))) \<and>
   map_of (symbols (updateActiveIdentifiers blockKey lx t)) i =
     (if i \<in> set (allActiveIdentifiers (updateActiveIdentifiers blockKey lx t))
      then map_of (symbols t) i else None) \<and>
   activeIdentifiersByBlock (updateActiveIdentifiers blockKey lx t) =
     AList.update blockKey
       (uniq (identifierValues (tokens lx) @ identifierValues (flatMap (errors lx) err_tokens)))
       (activeIdentifiersByBlock t)"
proof -
  define t1 where "t1 = t\<lparr>activeIdentifiersByBlock :=
     AList.update blockKey
       (uniq (identifierValues (tokens lx) @ identifierValues (flatMap (errors lx) err_tokens)))
       (activeIdentifiersByBlock t)\<rparr>"
  define t2 where "t2 = updateActiveIdentifiers blockKey lx t"
  have t2: "t2 = foldl (\<lambda>t' d. remove d t') t1 (danglingIdentifiers t1)"
    by (simp add: t2_def t1_def updateActiveIdentifiers_def Let_def)
  have act: "allActiveIdentifiers t2 = allActiveIdentifiers t1"
    by (simp add: t2 allActiveIdentifiers_def active_remove_all)
  have sym1: "symbols t1 = symbols t"
    by (simp add: t1_def)
  have sym2: "symbols t2 = filter (\<lambda>e. fst e \<in> set (allActiveIdentifiers t1)) (symbols t)"
  proof -
    have "symbols t2 = filter (\<lambda>e. fst e \<notin> set (danglingIdentifiers t1)) (symbols t)"
      by (simp add: t2 symbols_remove_all sym1)
    also have "\<dots> = filter (\<lambda>e. fst e \<in> set (allActiveIdentifiers t1)) (symbols t)"
      by (rule filter_cong) (auto simp: set_danglingIdentifiers sym1 keys_def)
    finally show ?thesis .
  qed
  have m: "map_of (symbols t2) i =
             (if i \<in> set (allActiveIdentifiers t2) then map_of (symbols t) i else None)"
    unfolding sym2 act by (rule map_of_filter_key)
  have u: "activeIdentifiersByBlock t2 =
     AList.update blockKey
       (uniq (identifierValues (tokens lx) @ identifierValues (flatMap (errors lx) err_tokens)))
       (activeIdentifiersByBlock t)"
    by (simp add: t2 active_remove_all) (simp add: t1_def)
  from m u act show ?thesis
    unfolding t2_def[symmetric] by (auto simp: js_in_map_of)
qed

theorem updateActiveIdentifiers_prunes_witness:
  "js_in ''kick'' (symbols (updateActiveIdentifiers ''b1'' \<lparr>tokens = [], errors = []\<rparr>
      (updateActiveIdentifiers ''b2''
         \<lparr>tokens = [\<lparr>tok_type = Identifier, tok_value = ''kick'', tok_start = 0,
                      tok_length = 4, tok_block = ''b2''\<rparr>], errors = []\<rparr>
         (merge \<lparr>identifier = ''kick'', type_field = Some (Some ''variable''),
                 status_field = None, value_field = None\<rparr>
            (new_SymbolTable :: nat symbol_table))))) \<and>
   \<not> js_in ''kick'' (symbols (updateActiveIdentifiers ''b2'' \<lparr>tokens = [], errors = []\<rparr>
      (updateActiveIdentifiers ''b2''
         \<lparr>tokens = [\<lparr>tok_type = Identifier, tok_value = ''kick'', tok_start = 0,
                      tok_length = 4, tok_block = ''b2''\<rparr>], errors = []\<rparr>
         (merge \<lparr>identifier = ''kick'', type_field = Some (Some ''variable''),
                 status_field = None, value_field = None\<rparr>
            (new_SymbolTable :: nat symbol_table)))))"
proof -
  let ?t = "updateActiveIdentifiers ''b2''
         \<lparr>tokens = [\<lparr>tok_type = Identifier, tok_value = ''kick'', tok_start = 0,
                      tok_length = 4, tok_block = ''b2''\<rparr>], errors = []\<rparr>
         (merge \<lparr>identifier = ''kick'', type_field = Some (Some ''variable''),
                 status_field = None, value_field = None\<rparr>
            (new_SymbolTable :: nat symbol_table))"
  have t: "symbols ?t = [(''kick'', \<lparr>sym_type = Some ''variable'', sym_status = None,
                                    sym_value = None\<rparr>)] \<and>
           activeIdentifiersByBlock ?t = [(''b2'', [''kick''])]"
    by (simp add: updateActiveIdentifiers_def merge_def new_SymbolTable_def
        allActiveIdentifiers_def danglingIdentifiers_def identifierValues_def flatMap_def
        values_lodash_def keys_def intersection_def xor_lodash_def uniq_def js_in_def
        spread_symbol_def Let_def)
  let ?e = "\<lparr>tokens = [], errors = []\<rparr>"
  have k: "js_in ''kick'' (symbols ?t)"
    using t by (simp add: js_in_def)
  have a1: "allActiveIdentifiers (updateActiveIdentifiers ''b1'' ?e ?t) = [''kick'']"
    using updateActiveIdentifiers_prunes[of "''kick''" "''b1''" ?e ?t] t
    by (simp add: allActiveIdentifiers_def values_lodash_def flatMap_def uniq_def
        identifierValues_def)
  have a2: "allActiveIdentifiers (updateActiveIdentifiers ''b2'' ?e ?t) = []"
    using updateActiveIdentifiers_prunes[of "''kick''" "''b2''" ?e ?t] t
    by (simp add: allActiveIdentifiers_def values_lodash_def flatMap_def uniq_def
        identifierValues_def)
  from updateActiveIdentifiers_prunes[of "''kick''" "''b1''" ?e ?t]
  have j1: "js_in ''kick'' (symbols (updateActiveIdentifiers ''b1'' ?e ?t)) \<longleftrightarrow>
              js_in ''kick'' (symbols ?t) \<and>
              ''kick'' \<in> set (allActiveIdentifiers (updateActiveIdentifiers ''b1'' ?e ?t))"
    by blast
  from updateActiveIdentifiers_prunes[of "''kick''" "''b2''" ?e ?t]
  have j2: "js_in ''kick'' (symbols (updateActiveIdentifiers ''b2'' ?e ?t)) \<longleftrightarrow>
              js_in ''kick'' (symbols ?t) \<and>
              ''kick'' \<in> set (allActiveIdentifiers (updateActiveIdentifiers ''b2'' ?e ?t))"
    by blast
  show ?thesis
    unfolding j1 j2 a1 a2 using k by simp
qed

subsection \<open>Resolution of sounds\<close>





lemma fetchWaitInterval_merge: "fetchWaitInterval (merge m t) = fetchWaitInterval t"
  by (simp add: merge_def Let_def)



text \<open>
  C1, as stated, fails: the identifier \<^verbatim>\<open>kick\<close> is merged as a new sound, its resolution
  starts and waits for the search, the identifier is removed, and the empty search result
  that arrives afterwards is merged all the same: the table has a record for \<^verbatim>\<open>kick\<close>
  again, with status \<^verbatim>\<open>unavailable\<close>.
\<close>

theorem stale_resolution_counterexample:
  "\<not> js_in ''kick'' (symbols
      (remove ''kick'' (fire_timeout
         (merge \<lparr>identifier = ''kick'', type_field = Some (Some ''sound''),
                 status_field = None, value_field = None\<rparr>
            (new_SymbolTable :: nat symbol_table))))) \<and>
   inflight (remove ''kick'' (fire_timeout
         (merge \<lparr>identifier = ''kick'', type_field = Some (Some ''sound''),
                 status_field = None, value_field = None\<rparr>
            (new_SymbolTable :: nat symbol_table)))) = [AwaitSearch ''kick''] \<and>
   symbols (fetchNewSound_searched ''kick'' (Some []) 0
      (remove ''kick'' (fire_timeout
         (merge \<lparr>identifier = ''kick'', type_field = Some (Some ''sound''),
                 status_field = None, value_field = None\<rparr>
            (new_SymbolTable :: nat symbol_table))))) =
     [(''kick'', \<lparr>sym_type = None, sym_status = Some ''unavailable'', sym_value = None\<rparr>)]"
  by (simp add: fetchNewSound_searched_def remove_def fire_timeout_def merge_def
      new_SymbolTable_def fetchNewSound_def updateVisualStatus_def spread_symbol_def
      js_in_def Let_def)

text \<open>
  C1, amended. For every sound identifier whose resolution has been scheduled, if the
  identifier is removed from the table before the resolution attempt starts, the attempt
  is discarded: it sends no request and makes no status or value write for the identifier.
  The existence of the identifier is checked once, when the attempt starts.
\<close>

theorem resolution_discarded_when_removed_before_start:
  assumes "\<not> js_in (identifier symbol) (symbols t)"
  shows "fetchNewSound symbol t = t \<and>
         fire_timeout (t\<lparr>timeouts := (delay, symbol) # rest\<rparr>) = t\<lparr>timeouts := rest\<rparr>"
  using assms by (simp add: fetchNewSound_def fire_timeout_def)

theorem resolution_discarded_when_removed_before_start_witness:
  "\<not> js_in ''kick'' (symbols (remove ''kick''
        (merge \<lparr>identifier = ''kick'', type_field = Some (Some ''sound''),
                status_field = None, value_field = None\<rparr>
           (new_SymbolTable :: nat symbol_table)))) \<and>
   fire_timeout (remove ''kick''
        (merge \<lparr>identifier = ''kick'', type_field = Some (Some ''sound''),
                status_field = None, value_field = None\<rparr>
           (new_SymbolTable :: nat symbol_table))) =
     (new_SymbolTable :: nat symbol_table)"
proof -
  let ?k = "\<lparr>identifier = ''kick'', type_field = Some (Some ''sound''),
             status_field = None, value_field = None :: nat option option\<rparr>"
  let ?t = "(new_SymbolTable :: nat symbol_table)"
  have a: "\<not> js_in (identifier ?k) (symbols ?t)"
    by (simp add: new_SymbolTable_def js_in_def)
  have b: "remove ''kick'' (merge ?k ?t) = ?t\<lparr>timeouts := (1000, ?k) # []\<rparr>"
    by (simp add: remove_def merge_def new_SymbolTable_def js_in_def Let_def)
  from resolution_discarded_when_removed_before_start[OF a, of 1000 "[]"] a b show ?thesis
    by (simp add: new_SymbolTable_def)
qed



section \<open>Properties of the first-pass parser\<close>

lemma paramStr_from:
  "acc \<noteq> [] \<Longrightarrow>
     foldl (\<lambda>acc (k, v). acc @ (if acc = [] then [] else ''_'') @ k @ ''-'' @ v) acc ps =
       acc @ concat (map (\<lambda>(k, v). ''_'' @ k @ ''-'' @ v) ps)"
  by (induction ps arbitrary: acc) (auto split: prod.splits)

lemma paramStr_Cons:
  "paramStr ((k, v) # ps) = k @ ''-'' @ v @ concat (map (\<lambda>(k, v). ''_'' @ k @ ''-'' @ v) ps)"
proof -
  have "k @ ''-'' @ v \<noteq> []" by simp
  from paramStr_from[OF this, of ps] show ?thesis
    by (simp add: paramStr_def)
qed

lemma peek_0_consume: "peek p 0 = Some t \<Longrightarrow> fst (consume p) = Some t"
  by (auto simp: peek_def consume_def js_index_def Let_def split: if_splits)

text \<open>
  C7, as stated, fails: \<^verbatim>\<open>kick(a:1, b:2)\<close> and \<^verbatim>\<open>kick(b:2, a:1)\<close> have the same literal
  and the same set of query parameters, and their tokens receive the different ids
  \<^verbatim>\<open>kick__a-1_b-2\<close> and \<^verbatim>\<open>kick__b-2_a-1\<close>.
\<close>

theorem soundLiteral_id_sorted_counterexample:
  "\<not> isl (parseIdentifier example_queries example_parser_ab) \<and>
   \<not> isl (parseIdentifier example_queries example_parser_ba) \<and>
   st_parameters (last (result_tokens
      (projr (parseIdentifier example_queries example_parser_ab)))) =
     Some [(''a'', ''1''), (''b'', ''2'')] \<and>
   st_parameters (last (result_tokens
      (projr (parseIdentifier example_queries example_parser_ba)))) =
     Some [(''b'', ''2''), (''a'', ''1'')] \<and>
   st_id (last (result_tokens
      (projr (parseIdentifier example_queries example_parser_ab)))) =
     Some ''kick__a-1_b-2'' \<and>
   st_id (last (result_tokens
      (projr (parseIdentifier example_queries example_parser_ba)))) =
     Some ''kick__b-2_a-1''"
  by code_simp

text \<open>
  C7, amended. For every sound-literal identifier parsed by the first-pass analyzer (an
  identifier that is neither a declared variable nor a known function), the token emitted
  last is the sound literal's, and its id is a deterministic composite of the literal text
  (every run of white space replaced by an underscore), two underscores, and a suffix of the
  parameters \<^verbatim>\<open>key-value\<close> joined by underscores in the order in which the parameter
  object lists them, which is not sorted: two occurrences of the same literal with the
  same parameters in the same order receive the same id.
\<close>

theorem soundLiteral_id_composite:
  assumes "peek p 0 = Some t" and "isSoundLiteral st (tok_value t)"
    and "parseIdentifier st p = Inr p'"
  shows "result_tokens p' \<noteq> [] \<and>
         st_type (last (result_tokens p')) = Some (Semantic SoundLiteral) \<and>
         st_value (last (result_tokens p')) = Some (tok_value t) \<and>
         (\<exists>parameters.
            st_parameters (last (result_tokens p')) = Some parameters \<and>
            st_id (last (result_tokens p')) =
              Some (replace_spaces (tok_value t) @ ''__'' @ paramStr parameters) \<and>
            (\<not> hasQueryParameters st (snd (consume p)) \<longrightarrow> parameters = [])) \<and>
         paramStr [] = [] \<and>
         (\<forall>k v ps. paramStr ((k, v) # ps) =
            k @ ''-'' @ v @ concat (map (\<lambda>(k, v). ''_'' @ k @ ''-'' @ v) ps))"
proof -
  from assms(2) have nv: "\<not> isVariable st (tok_value t)"
    by (simp add: isSoundLiteral_def)
  obtain soundLiteral p1 where c: "consume p = (soundLiteral, p1)"
    by (cases "consume p") auto
  with peek_0_consume[OF assms(1)] have sl: "soundLiteral = Some t" by simp
  obtain parameters p2 where
    r: "(if hasQueryParameters st p1 then parseFnParameters st ''_soundFn'' p1
         else Inr ([], p1)) = Inr (parameters, p2)"
    and p': "p' = pushToken ((spread_token soundLiteral)
                \<lparr>f_type := Some (Semantic SoundLiteral),
                 f_id := Some (soundLiteral_id (tok_value t) parameters),
                 f_parameters := Some parameters\<rparr>) p2"
    using assms(1,2,3) nv c
    by (auto simp: parseIdentifier_def split: sum.splits)
  from r have e: "\<not> hasQueryParameters st p1 \<longrightarrow> parameters = []"
    by (auto split: if_splits)
  have "paramStr [] = []" by (simp add: paramStr_def)
  with p' sl e c show ?thesis
    by (simp add: pushToken_def newSemanticToken_def spread_token_def soundLiteral_id_def
        paramStr_Cons)
qed

theorem soundLiteral_id_composite_witness:
  "\<not> isl (parseIdentifier example_queries example_parser_ab) \<and>
   isSoundLiteral example_queries ''kick'' \<and>
   st_type (last (result_tokens (projr (parseIdentifier example_queries example_parser_ab)))) =
     Some (Semantic SoundLiteral) \<and>
   st_value (last (result_tokens (projr (parseIdentifier example_queries example_parser_ab)))) =
     Some ''kick''"
proof -
  have a: "peek example_parser_ab 0 = Some (example_token Identifier ''kick'' 0)"
    by code_simp
  have b: "isSoundLiteral example_queries (tok_value (example_token Identifier ''kick'' 0))"
    by code_simp
  have c: "\<not> isl (parseIdentifier example_queries example_parser_ab)"
    by code_simp
  then have d: "parseIdentifier example_queries example_parser_ab =
                  Inr (projr (parseIdentifier example_queries example_parser_ab))"
    by simp
  have v: "tok_value (example_token Identifier ''kick'' 0) = ''kick''"
    by (simp add: example_token_def)
  from soundLiteral_id_composite[OF a b d] b c show ?thesis
    unfolding v by blast
qed

end
